(* ===== verification/Prelude.thy ===== *)
theory Prelude
  imports Main
begin

text \<open>
  Shared vocabulary of the development.  The controller
  \<^verbatim>\<open>src/controllers/sudoku-solver.js\<close> is JavaScript; the few pieces of the
  JavaScript runtime it relies on are given here as plain HOL functions:
  \<^item> numbers: every number the code handles is an integer or \<open>NaN\<close>
    (from \<^verbatim>\<open>parseInt\<close>), so a number is a \<open>jsnum\<close>, \<open>Num k\<close> or \<open>NaN\<close>;
  \<^item> array reads \<^verbatim>\<open>a[k]\<close> that may fall outside the array, or use \<open>NaN\<close>
    as index, give \<^verbatim>\<open>undefined\<close>, modelled as \<open>None\<close>;
  \<^item> strict equality \<^verbatim>\<open>===\<close>, \<^verbatim>\<open>isNaN\<close>, \<^verbatim>\<open>parseInt\<close>,
    \<^verbatim>\<open>Number.prototype.toString\<close>, \<^verbatim>\<open>String.prototype.toLowerCase\<close> and
    \<^verbatim>\<open>indexOf\<close> on the one-character strings the code applies them to.
  Strings are lists of \<open>char\<close>, that is of code units below 256 (Latin-1); the
  code only ever inspects single characters of them.
  The theory also holds the list lemmas the codec and the solver share.
\<close>

named_theorems js_simps "evaluation rules of the JavaScript primitives"

section \<open>JavaScript numbers\<close>

datatype jsnum = Num int | NaN

text \<open>\<^verbatim>\<open>a === b\<close> on numbers: \<open>NaN\<close> equals nothing, not even itself.\<close>

fun js_eq :: "jsnum \<Rightarrow> jsnum \<Rightarrow> bool" where
  "js_eq (Num a) (Num b) = (a = b)"
| "js_eq _ _ = False"

text \<open>\<^verbatim>\<open>x === v\<close> where \<open>x\<close> is an array read that may be \<^verbatim>\<open>undefined\<close>.\<close>

fun js_eq_opt :: "jsnum option \<Rightarrow> jsnum \<Rightarrow> bool" where
  "js_eq_opt None _ = False"
| "js_eq_opt (Some a) b = js_eq a b"

text \<open>\<^verbatim>\<open>x > 0\<close>: false for \<open>NaN\<close>.\<close>

fun js_pos :: "jsnum \<Rightarrow> bool" where
  "js_pos (Num k) = (0 < k)"
| "js_pos NaN = False"

text \<open>\<^verbatim>\<open>a[k]\<close> for an array \<open>a\<close> and a number \<open>k\<close>: \<^verbatim>\<open>undefined\<close> unless
  \<open>k\<close> is an index of \<open>a\<close>.\<close>

fun js_index :: "'a list \<Rightarrow> jsnum \<Rightarrow> 'a option" where
  "js_index xs (Num k) = (if 0 \<le> k \<and> k < int (length xs) then Some (xs ! nat k) else None)"
| "js_index xs NaN = None"

text \<open>\<^verbatim>\<open>Math.floor(x / 3) * 3\<close>, with \<open>NaN\<close> propagating.\<close>

fun js_floor3 :: "jsnum \<Rightarrow> jsnum" where
  "js_floor3 (Num k) = Num (k div 3 * 3)"
| "js_floor3 NaN = NaN"

text \<open>\<^verbatim>\<open>x - 1\<close>.\<close>

fun js_minus1 :: "jsnum \<Rightarrow> jsnum" where
  "js_minus1 (Num k) = Num (k - 1)"
| "js_minus1 NaN = NaN"

text \<open>\<^verbatim>\<open>x < k\<close> and \<^verbatim>\<open>x > k\<close> against an integer constant: false for \<open>NaN\<close>.\<close>

fun js_less :: "jsnum \<Rightarrow> int \<Rightarrow> bool" where
  "js_less (Num a) b = (a < b)"
| "js_less NaN _ = False"

fun js_greater :: "jsnum \<Rightarrow> int \<Rightarrow> bool" where
  "js_greater (Num a) b = (b < a)"
| "js_greater NaN _ = False"

section \<open>Characters\<close>

definition is_digit :: "char \<Rightarrow> bool" where
  "is_digit c \<longleftrightarrow> (48::nat) \<le> of_char c \<and> of_char c \<le> (57::nat)"

definition digit_val :: "char \<Rightarrow> int" where
  "digit_val c = int (of_char c) - 48"

definition digit_char :: "int \<Rightarrow> char" where
  "digit_char d = char_of (nat (d + 48))"

text \<open>White space as \<^verbatim>\<open>Number(s)\<close> skips it (ECMAScript StrWhiteSpaceChar),
  restricted to code units below 256: TAB, LF, VT, FF, CR, space and no-break space.\<close>

definition js_space :: "char \<Rightarrow> bool" where
  "js_space c \<longleftrightarrow> of_char c \<in> {9, 10, 11, 12, 13, 32, 160 :: nat}"

text \<open>\<^verbatim>\<open>parseInt(s)\<close> for a one-character string \<open>s\<close>, and for
  \<^verbatim>\<open>undefined\<close> (a read past the end of a string).\<close>

definition parse_int_char :: "char \<Rightarrow> jsnum" where
  "parse_int_char c = (if is_digit c then Num (digit_val c) else NaN)"

fun parse_int_opt :: "char option \<Rightarrow> jsnum" where
  "parse_int_opt None = NaN"
| "parse_int_opt (Some c) = parse_int_char c"

text \<open>\<^verbatim>\<open>isNaN(s)\<close> for a one-character string: \<^verbatim>\<open>Number(s)\<close> is a digit's
  value, \<open>0\<close> for a white-space character, and \<open>NaN\<close> otherwise;
  \<^verbatim>\<open>isNaN(undefined)\<close> is true.\<close>

definition is_nan_char :: "char \<Rightarrow> bool" where
  "is_nan_char c \<longleftrightarrow> \<not> (is_digit c \<or> js_space c)"

fun is_nan_opt :: "char option \<Rightarrow> bool" where
  "is_nan_opt None = True"
| "is_nan_opt (Some c) = is_nan_char c"

text \<open>\<^verbatim>\<open>s[i]\<close> on a string.\<close>

definition js_char_at :: "string \<Rightarrow> nat \<Rightarrow> char option" where
  "js_char_at s i = (if i < length s then Some (s ! i) else None)"

text \<open>\<^verbatim>\<open>c.toLowerCase()\<close> on one Latin-1 character: \<open>A\<close>..\<open>Z\<close> and the
  Latin-1 capitals other than the multiplication sign move up by 32.\<close>

definition to_lower :: "char \<Rightarrow> char" where
  "to_lower c =
     (let n = of_char c :: nat in
      if (65 \<le> n \<and> n \<le> 90) \<or> (192 \<le> n \<and> n \<le> 222 \<and> n \<noteq> 215) then char_of (n + 32) else c)"

text \<open>\<^verbatim>\<open>s.indexOf(c)\<close> for a one-character string \<open>c\<close>.\<close>

fun index_of :: "string \<Rightarrow> char \<Rightarrow> int" where
  "index_of [] c = -1"
| "index_of (x # xs) c = (if x = c then 0 else (let r = index_of xs c in if r < 0 then -1 else r + 1))"

text \<open>\<^verbatim>\<open>n.toString()\<close> for an integer, and \<^verbatim>\<open>NaN.toString()\<close>.\<close>

fun nat_to_string :: "nat \<Rightarrow> string" where
  "nat_to_string n =
     (if n < 10 then [digit_char (int n)] else nat_to_string (n div 10) @ [digit_char (int (n mod 10))])"

fun js_to_string :: "jsnum \<Rightarrow> string" where
  "js_to_string (Num k) = (if k < 0 then CHR ''-'' # nat_to_string (nat (- k)) else nat_to_string (nat k))"
| "js_to_string NaN = ''NaN''"

declare nat_to_string.simps [simp del]

section \<open>Lemmas on the primitives\<close>

lemma js_eq_Num_iff [js_simps]: "js_eq x (Num v) \<longleftrightarrow> x = Num v"
  by (cases x) auto

lemma js_eq_opt_Num_iff [js_simps]: "js_eq_opt x (Num v) \<longleftrightarrow> x = Some (Num v)"
  by (cases x) (auto simp: js_eq_Num_iff)

lemma js_eq_NaN [js_simps]: "\<not> js_eq x NaN"
  by (cases x) auto

lemma js_eq_opt_NaN [js_simps]: "\<not> js_eq_opt x NaN"
  by (cases x) (auto simp: js_eq_NaN)

lemma js_index_nat [js_simps]:
  "i < length xs \<Longrightarrow> js_index xs (Num (int i)) = Some (xs ! i)"
  by simp

lemma digit_char_val [simp]: "0 \<le> d \<Longrightarrow> d \<le> 9 \<Longrightarrow> digit_val (digit_char d) = d"
  by (simp add: digit_val_def digit_char_def)

lemma digit_char_is_digit [simp]: "0 \<le> d \<Longrightarrow> d \<le> 9 \<Longrightarrow> is_digit (digit_char d)"
proof -
  assume "0 \<le> d" "d \<le> 9"
  then have "nat (d + 48) < 256" "48 \<le> nat (d + 48)" "nat (d + 48) \<le> 57" by auto
  then show ?thesis
    by (simp add: is_digit_def digit_char_def)
qed

lemma parse_int_digit_char [simp]:
  "0 \<le> d \<Longrightarrow> d \<le> 9 \<Longrightarrow> parse_int_char (digit_char d) = Num d"
  by (simp add: parse_int_char_def)

lemma digit_char_dot [simp]: "0 \<le> d \<Longrightarrow> d \<le> 9 \<Longrightarrow> digit_char d \<noteq> CHR ''.''"
  using digit_char_is_digit [of d] by (auto simp: is_digit_def)

lemma nat_to_string_digit [simp]: "n < 10 \<Longrightarrow> nat_to_string n = [digit_char (int n)]"
  by (simp add: nat_to_string.simps)

lemma js_to_string_digit [simp]:
  "0 \<le> k \<Longrightarrow> k \<le> 9 \<Longrightarrow> js_to_string (Num k) = [digit_char k]"
  by simp

lemma index_of_bounds: "-1 \<le> index_of xs c \<and> index_of xs c < int (length xs)"
  by (induction xs) (auto simp: Let_def)

lemma index_of_nonneg: "0 \<le> index_of xs c \<longleftrightarrow> c \<in> set xs"
  by (induction xs) (auto simp: Let_def)

lemma index_of_nth: "0 \<le> index_of xs c \<Longrightarrow> xs ! nat (index_of xs c) = c"
proof (induction xs)
  case Nil
  then show ?case by simp
next
  case (Cons x xs)
  show ?case
  proof (cases "x = c")
    case False
    with Cons.prems have "0 \<le> index_of xs c"
      by (auto simp: Let_def split: if_splits)
    with Cons.IH False show ?thesis
      by (simp add: Let_def nat_add_distrib)
  qed simp
qed

text \<open>Kept out of the simplifier: on a literal string it unfolds into a chain of
  conditionals.  Concrete evaluation adds it back.\<close>

declare index_of.simps [simp del]

section \<open>Lists of fixed-width rows\<close>

text \<open>A grid is stored as a list of rows; its row-major string is the
  concatenation of the rows.  Reading position \<open>n * i + j\<close> of the
  concatenation of rows of width \<open>n\<close> is reading cell \<open>(i, j)\<close>.\<close>

lemma nth_concat_rows:
  assumes "\<forall>r \<in> set xss. length r = n" and "i < length xss" and "j < n"
  shows "concat xss ! (n * i + j) = xss ! i ! j"
  using assms
proof (induction xss arbitrary: i)
  case Nil
  then show ?case by simp
next
  case (Cons r xss)
  show ?case
  proof (cases i)
    case 0
    with Cons.prems show ?thesis by (simp add: nth_append)
  next
    case (Suc i')
    with Cons.prems have "concat xss ! (n * i' + j) = xss ! i' ! j"
      by (intro Cons.IH) auto
    with Cons.prems Suc show ?thesis
      by (simp add: nth_append algebra_simps)
  qed
qed

lemma concat_map_singleton:
  "(\<And>x. x \<in> set xs \<Longrightarrow> f x = [h x]) \<Longrightarrow> concat (map f xs) = map h xs"
  by (induction xs) auto

lemma length_concat_rows:
  "\<forall>r \<in> set xss. length r = n \<Longrightarrow> length (concat xss) = n * length xss"
  by (induction xss) auto

lemma nth_upt_rows [simp]:
  "i < 9 \<Longrightarrow> j < 9 \<Longrightarrow> (9::nat) * i + j < 81"
  by simp

end
