(* ===== verification/Grid_Codec.thy ===== *)
theory Grid_Codec
  imports Prelude
begin

text \<open>
  The grid codec of \<^verbatim>\<open>src/controllers/sudoku-solver.js\<close>: \<^verbatim>\<open>buildPuzzle\<close>
  (lines 1--17) reads an 81-character puzzle string row-major into a 9x9 array
  of numbers, and \<^verbatim>\<open>buildPuzzleString\<close> (lines 19--31) writes a grid back.
  A grid is a list of nine rows of nine \<open>jsnum\<close> cells.  The theory proves the
  two round trips: decoding the encoding of a well-formed grid gives the grid
  back, and encoding the decoding of a valid puzzle string gives the string back
  with every \<open>0\<close> turned into a \<open>.\<close>.
\<close>

type_synonym grid = "jsnum list list"

section \<open>Decoding: buildPuzzle\<close>

text \<open>One character of the string: \<open>.\<close> is \<open>0\<close>, anything else goes
  through \<^verbatim>\<open>parseInt\<close>; a read past the end is \<^verbatim>\<open>parseInt(undefined)\<close>.\<close>

fun read_cell :: "char option \<Rightarrow> jsnum" where
  "read_cell (Some c) = (if c = CHR ''.'' then Num 0 else parse_int_char c)"
| "read_cell None = NaN"

definition build_puzzle :: "string \<Rightarrow> grid" where
  "build_puzzle s = map (\<lambda>i. map (\<lambda>j. read_cell (js_char_at s (9 * i + j))) [0..<9]) [0..<9]"

section \<open>Encoding: buildPuzzleString\<close>

definition build_puzzle_string :: "grid \<Rightarrow> string" where
  "build_puzzle_string p =
     concat (map (\<lambda>i. concat (map (\<lambda>j.
       if js_eq (p ! i ! j) (Num 0) then ''.'' else js_to_string (p ! i ! j)) [0..<9])) [0..<9])"

section \<open>Well-formed grids\<close>

text \<open>The cells the code means: numbers \<open>0\<close>..\<open>9\<close>, \<open>0\<close> for empty.\<close>

fun cell_ok :: "jsnum \<Rightarrow> bool" where
  "cell_ok (Num k) = (0 \<le> k \<and> k \<le> 9)"
| "cell_ok NaN = False"

definition wf_grid :: "grid \<Rightarrow> bool" where
  "wf_grid p \<longleftrightarrow> length p = 9 \<and> list_all (\<lambda>r. length r = 9 \<and> list_all cell_ok r) p"

text \<open>A valid puzzle character in the sense of the spec: a digit or \<open>.\<close>.\<close>

definition puzzle_char :: "char \<Rightarrow> bool" where
  "puzzle_char c \<longleftrightarrow> is_digit c \<or> c = CHR ''.''"

text \<open>The character a well-formed cell is written as.\<close>

definition cell_char :: "jsnum \<Rightarrow> char" where
  "cell_char x = (case x of Num k \<Rightarrow> if k = 0 then CHR ''.'' else digit_char k | NaN \<Rightarrow> CHR ''N'')"

section \<open>Lemmas\<close>

lemma build_puzzle_shape [simp]:
  "length (build_puzzle s) = 9"
  "i < 9 \<Longrightarrow> length (build_puzzle s ! i) = 9"
  by (simp_all add: build_puzzle_def)

lemma build_puzzle_nth [simp]:
  "i < 9 \<Longrightarrow> j < 9 \<Longrightarrow> build_puzzle s ! i ! j = read_cell (js_char_at s (9 * i + j))"
  by (simp add: build_puzzle_def)

lemma wf_grid_nth:
  "wf_grid p \<Longrightarrow> i < 9 \<Longrightarrow> j < 9 \<Longrightarrow> length (p ! i) = 9 \<and> cell_ok (p ! i ! j)"
  by (auto simp: wf_grid_def list_all_length)

lemma wf_gridI:
  assumes "length p = 9" and "\<And>i. i < 9 \<Longrightarrow> length (p ! i) = 9"
    and "\<And>i j. i < 9 \<Longrightarrow> j < 9 \<Longrightarrow> cell_ok (p ! i ! j)"
  shows "wf_grid p"
  using assms by (auto simp: wf_grid_def list_all_length)

lemma cell_ok_Num: "cell_ok x \<Longrightarrow> \<exists>k. x = Num k \<and> 0 \<le> k \<and> k \<le> 9"
  by (cases x) auto

lemma cell_text_single:
  "cell_ok x \<Longrightarrow>
   (if js_eq x (Num 0) then ''.'' else js_to_string x) = [cell_char x]"
  by (cases x) (auto simp: cell_char_def)

lemma read_cell_char [simp]: "cell_ok x \<Longrightarrow> read_cell (Some (cell_char x)) = x"
  by (cases x) (auto simp: cell_char_def)

lemma concat_upt_rows:
  "concat (map (\<lambda>i. map (\<lambda>j. g (n * i + j)) [0..<n]) [0..<m]) = map g [0..<n * m]"
proof (induction m)
  case 0
  then show ?case by simp
next
  case (Suc m)
  have "map (\<lambda>j. g (n * m + j)) [0..<n] = map g [n * m..<n * m + n]"
    by (simp add: map_add_upt [symmetric] add.commute)
  moreover have "[0..<n * m + n] = [0..<n * m] @ [n * m..<n * m + n]"
    by (rule upt_add_eq_append) simp
  ultimately show ?case
    using Suc by (simp add: algebra_simps)
qed

lemma build_puzzle_string_wf:
  assumes "wf_grid p"
  shows "build_puzzle_string p = concat (map (\<lambda>i. map (\<lambda>j. cell_char (p ! i ! j)) [0..<9]) [0..<9])"
proof -
  have "\<And>i. i < 9 \<Longrightarrow>
     concat (map (\<lambda>j. if js_eq (p ! i ! j) (Num 0) then ''.'' else js_to_string (p ! i ! j)) [0..<9])
     = map (\<lambda>j. cell_char (p ! i ! j)) [0..<9]"
    using assms by (intro concat_map_singleton) (simp add: cell_text_single wf_grid_nth)
  then show ?thesis
    unfolding build_puzzle_string_def by (intro arg_cong [where f = concat] map_cong) simp_all
qed

lemma build_puzzle_string_wf_nth:
  assumes "wf_grid p"
  shows "length (build_puzzle_string p) = 81"
    and "i < 9 \<Longrightarrow> j < 9 \<Longrightarrow> build_puzzle_string p ! (9 * i + j) = cell_char (p ! i ! j)"
proof -
  let ?xss = "map (\<lambda>i. map (\<lambda>j. cell_char (p ! i ! j)) [0..<9]) [0..<9]"
  have rows: "\<forall>r \<in> set ?xss. length r = 9" by simp
  show "length (build_puzzle_string p) = 81"
    using length_concat_rows [OF rows] assms by (simp add: build_puzzle_string_wf)
  show "i < 9 \<Longrightarrow> j < 9 \<Longrightarrow> build_puzzle_string p ! (9 * i + j) = cell_char (p ! i ! j)"
    using nth_concat_rows [OF rows, of i j] assms by (simp add: build_puzzle_string_wf)
qed

lemma char_of_digit_val: "is_digit c \<Longrightarrow> digit_char (digit_val c) = c"
  by (simp add: is_digit_def digit_char_def digit_val_def)

lemma read_cell_puzzle_char:
  assumes "puzzle_char c"
  shows "cell_ok (read_cell (Some c))"
    and "cell_char (read_cell (Some c)) = (if c = CHR ''0'' then CHR ''.'' else c)"
proof -
  have d: "is_digit c \<Longrightarrow> 0 \<le> digit_val c \<and> digit_val c \<le> 9"
    by (auto simp: is_digit_def digit_val_def)
  have z: "digit_val c = 0 \<longleftrightarrow> c = CHR ''0''"
  proof
    assume "digit_val c = 0"
    then have "of_char c = (48::nat)" by (simp add: digit_val_def)
    then have "char_of (of_char c :: nat) = char_of (48::nat)" by simp
    moreover have "char_of (48::nat) = CHR ''0''" by code_simp
    ultimately show "c = CHR ''0''" by simp
  qed (simp add: digit_val_def)
  show "cell_ok (read_cell (Some c))"
    using assms d by (auto simp: puzzle_char_def parse_int_char_def)
  show "cell_char (read_cell (Some c)) = (if c = CHR ''0'' then CHR ''.'' else c)"
    using assms d z
    by (auto simp: puzzle_char_def parse_int_char_def cell_char_def char_of_digit_val is_digit_def)
qed

lemma build_puzzle_wf:
  "length t = 81 \<Longrightarrow> list_all puzzle_char t \<Longrightarrow> wf_grid (build_puzzle t)"
  using read_cell_puzzle_char(1)
  by (intro wf_gridI) (auto simp: js_char_at_def list_all_length simp del: read_cell.simps)

lemma grid_eqI:
  assumes "wf_grid p" and "wf_grid q" and "\<And>i j. i < 9 \<Longrightarrow> j < 9 \<Longrightarrow> p ! i ! j = q ! i ! j"
  shows "p = q"
proof (rule nth_equalityI)
  show "length p = length q" using assms(1,2) by (simp add: wf_grid_def)
next
  fix i assume "i < length p"
  then have i: "i < 9" using assms(1) by (simp add: wf_grid_def)
  show "p ! i = q ! i"
  proof (rule nth_equalityI)
    show "length (p ! i) = length (q ! i)"
      using wf_grid_nth [OF assms(1) i, of 0] wf_grid_nth [OF assms(2) i, of 0] by simp
  next
    fix j assume "j < length (p ! i)"
    then have "j < 9" using wf_grid_nth [OF assms(1) i, of 0] by simp
    then show "p ! i ! j = q ! i ! j" using assms(3) i by blast
  qed
qed

section \<open>Round trips\<close>

lemma build_puzzle_string_inv:
  assumes "wf_grid p"
  shows "build_puzzle (build_puzzle_string p) = p"
proof (rule nth_equalityI)
  show "length (build_puzzle (build_puzzle_string p)) = length p"
    using assms by (simp add: wf_grid_def)
next
  fix i assume i: "i < length (build_puzzle (build_puzzle_string p))"
  then have i9: "i < 9" by simp
  show "build_puzzle (build_puzzle_string p) ! i = p ! i"
  proof (rule nth_equalityI)
    show "length (build_puzzle (build_puzzle_string p) ! i) = length (p ! i)"
      using assms i9 wf_grid_nth [of p i 0] by simp
  next
    fix j assume "j < length (build_puzzle (build_puzzle_string p) ! i)"
    with i9 have j9: "j < 9" by simp
    then show "build_puzzle (build_puzzle_string p) ! i ! j = p ! i ! j"
      using assms i9 wf_grid_nth [OF assms i9 j9]
      by (simp add: js_char_at_def build_puzzle_string_wf_nth del: read_cell.simps)
  qed
qed

text \<open>C14: decoding the string written for a well-formed grid gives the grid back.\<close>

theorem decode_encode:
  assumes "wf_grid p"
  shows "build_puzzle (build_puzzle_string p) = p"
  using assms by (rule build_puzzle_string_inv)

lemma build_puzzle_string_decode:
  assumes "length t = 81" and "list_all puzzle_char t"
  shows "build_puzzle_string (build_puzzle t) = map (\<lambda>c. if c = CHR ''0'' then CHR ''.'' else c) t"
proof -
  let ?f = "\<lambda>c. if c = CHR ''0'' then CHR ''.'' else c"
  have pc: "\<And>k. k < 81 \<Longrightarrow> puzzle_char (t ! k)"
    using assms by (simp add: list_all_length)
  have "build_puzzle_string (build_puzzle t) =
        concat (map (\<lambda>i. map (\<lambda>j. cell_char (build_puzzle t ! i ! j)) [0..<9]) [0..<9])"
    using assms by (simp add: build_puzzle_string_wf build_puzzle_wf)
  also have "\<dots> = concat (map (\<lambda>i. map (\<lambda>j. ?f (t ! (9 * i + j))) [0..<9]) [0..<9])"
    using assms pc by (intro arg_cong [where f = concat] map_cong refl)
      (simp add: js_char_at_def read_cell_puzzle_char del: read_cell.simps)
  also have "\<dots> = map (\<lambda>k. ?f (t ! k)) [0..<9 * 9]"
    by (rule concat_upt_rows)
  also have "\<dots> = map ?f (map ((!) t) [0..<length t])"
    using assms by simp
  also have "\<dots> = map ?f t"
    by (simp only: map_nth)
  finally show ?thesis .
qed

text \<open>C15: writing the grid read from a valid puzzle string gives the string back,
  except that every \<open>0\<close> comes back as \<open>.\<close>: \<^verbatim>\<open>buildPuzzle\<close> reads both
  as an empty cell and \<^verbatim>\<open>buildPuzzleString\<close> writes an empty cell as \<open>.\<close>.\<close>

theorem encode_decode:
  assumes "length t = 81" and "list_all puzzle_char t"
  shows "build_puzzle_string (build_puzzle t) = map (\<lambda>c. if c = CHR ''0'' then CHR ''.'' else c) t"
  using assms by (rule build_puzzle_string_decode)

end
