(* ===== verification/Validator.thy ===== *)
theory Validator
  imports Grid_Codec
begin

text \<open>
  Input validation of \<^verbatim>\<open>src/controllers/sudoku-solver.js\<close>:
  \<^verbatim>\<open>SudokuSolver.validate\<close> (lines 34--40) for the puzzle string, and the
  coordinate and value guards of \<^verbatim>\<open>checkStr\<close> (lines 80--85).  A request
  field is a \<open>string option\<close>: \<open>None\<close> when the field is absent
  (\<^verbatim>\<open>undefined\<close>).  Every error of the code is a constructor of
  \<open>error\<close>; \<open>error_message\<close> gives the string the code returns.
\<close>

datatype error =
    RequiredFieldMissing
  | RequiredFieldsMissing
  | WrongLength
  | InvalidCharacters
  | InvalidCoordinate
  | InvalidValue
  | CannotBeSolved

fun error_message :: "error \<Rightarrow> string" where
  "error_message RequiredFieldMissing = ''Required field missing''"
| "error_message RequiredFieldsMissing = ''Required field(s) missing''"
| "error_message WrongLength = ''Expected puzzle to be 81 characters long''"
| "error_message InvalidCharacters = ''Invalid characters in puzzle''"
| "error_message InvalidCoordinate = ''Invalid coordinate''"
| "error_message InvalidValue = ''Invalid value''"
| "error_message CannotBeSolved = ''Puzzle cannot be solved''"

text \<open>\<^verbatim>\<open>!x\<close> for a request field: absent or the empty string.\<close>

fun js_falsy :: "string option \<Rightarrow> bool" where
  "js_falsy None = True"
| "js_falsy (Some s) = (s = [])"

section \<open>validate\<close>

text \<open>The character class \<^verbatim>\<open>[0-9\\.]\<close> of the regular expression literal
  \<^verbatim>\<open>/^[0-9\\.]{81}$/\<close>: inside a class, \<^verbatim>\<open>\\\<close> is an escaped backslash and
  \<^verbatim>\<open>.\<close> a literal dot, so the class holds the digits, the backslash and the dot.\<close>

definition regex_char :: "char \<Rightarrow> bool" where
  "regex_char c \<longleftrightarrow> is_digit c \<or> c = CHR 0x5C \<or> c = CHR ''.''"

definition regex_test :: "string \<Rightarrow> bool" where
  "regex_test s \<longleftrightarrow> length s = 81 \<and> list_all regex_char s"

definition validate :: "string option \<Rightarrow> error option" where
  "validate ps =
     (if js_falsy ps then Some RequiredFieldMissing
      else let s = the ps in
        if length s \<noteq> 81 then Some WrongLength
        else if \<not> regex_test s then Some InvalidCharacters
        else None)"

section \<open>The coordinate and value guards of checkStr\<close>

text \<open>Lines 80--83: the coordinate is two characters, the second not \<open>NaN\<close>
  for \<^verbatim>\<open>isNaN\<close>; the row is the index of the lower-cased first character in
  \<^verbatim>\<open>abcdefghi\<close>, the column \<^verbatim>\<open>parseInt\<close> of the second minus one, both
  compared against \<open>0\<close> and \<open>8\<close>.  The result is the row and the column.\<close>

definition parse_coord :: "string \<Rightarrow> error + (nat \<times> jsnum)" where
  "parse_coord coord =
     (if is_nan_opt (js_char_at coord 1) \<or> length coord \<noteq> 2 then Inl InvalidCoordinate
      else
        let coordRow = index_of ''abcdefghi'' (to_lower (coord ! 0));
            coordCol = js_minus1 (parse_int_opt (js_char_at coord 1))
        in if coordRow < 0 \<or> coordRow > 8 \<or> js_less coordCol 0 \<or> js_greater coordCol 8
           then Inl InvalidCoordinate
           else Inr (nat coordRow, coordCol))"

text \<open>Lines 84--85: the value is one character, not \<open>NaN\<close> for
  \<^verbatim>\<open>isNaN\<close>, and its \<^verbatim>\<open>parseInt\<close> is not below \<open>1\<close> nor above \<open>9\<close>.\<close>

definition parse_value :: "string \<Rightarrow> error + jsnum" where
  "parse_value valStr =
     (if length valStr \<noteq> 1 \<or> is_nan_char (valStr ! 0)
         \<or> js_less (parse_int_char (valStr ! 0)) 1 \<or> js_greater (parse_int_char (valStr ! 0)) 9
      then Inl InvalidValue
      else Inr (parse_int_char (valStr ! 0)))"

section \<open>Lemmas\<close>

lemma puzzle_char_regex_char: "puzzle_char c \<Longrightarrow> regex_char c"
  by (auto simp: puzzle_char_def regex_char_def)

lemma parse_coord_Inr_cases:
  assumes "parse_coord coord = Inr (r, col)"
  shows "length coord = 2" and "r = nat (index_of ''abcdefghi'' (to_lower (coord ! 0)))"
    and "0 \<le> index_of ''abcdefghi'' (to_lower (coord ! 0))"
    and "col = js_minus1 (parse_int_char (coord ! 1))"
    and "\<not> is_nan_char (coord ! 1)"
  using assms index_of_bounds [of "''abcdefghi''" "to_lower (coord ! 0)"]
  by (auto simp: parse_coord_def js_char_at_def Let_def split: if_splits)

lemma parse_value_Inr_cases:
  assumes "parse_value valStr = Inr v"
  shows "length valStr = 1" and "v = parse_int_char (valStr ! 0)" and "\<not> is_nan_char (valStr ! 0)"
  using assms by (auto simp: parse_value_def split: if_splits)

lemma digit_val_bounds: "is_digit c \<Longrightarrow> 0 \<le> digit_val c \<and> digit_val c \<le> 9"
  by (auto simp: is_digit_def digit_val_def)

lemma not_nan_char_cases: "\<not> is_nan_char c \<Longrightarrow> is_digit c \<or> (js_space c \<and> parse_int_char c = NaN)"
  by (auto simp: is_nan_char_def parse_int_char_def)

lemma validate_None_iff:
  "validate ps = None \<longleftrightarrow> (\<exists>s. ps = Some s \<and> length s = 81 \<and> list_all regex_char s)"
  by (cases ps) (auto simp: validate_def regex_test_def)

text \<open>C16: \<^verbatim>\<open>validate\<close> reports a missing field for an absent or empty
  string, a wrong length for any other string that is not 81 characters long, and
  invalid characters for an 81-character string with a character outside the
  class; the checks come in this order, and no other error is reported.\<close>

theorem validate_errors:
  "validate None = Some RequiredFieldMissing \<and>
   (validate (Some s) = Some e \<longleftrightarrow>
      s = [] \<and> e = RequiredFieldMissing
    \<or> s \<noteq> [] \<and> length s \<noteq> 81 \<and> e = WrongLength
    \<or> length s = 81 \<and> \<not> list_all regex_char s \<and> e = InvalidCharacters)"
  by (auto simp: validate_def regex_test_def)

lemma parse_coord_range:
  assumes "parse_coord coord = Inr (r, col)"
  shows "r < 9 \<and> (col = NaN \<or> (\<exists>k. col = Num k \<and> 0 \<le> k \<and> k \<le> 8))"
proof -
  have "r < 9"
    using parse_coord_Inr_cases [OF assms] index_of_bounds [of "''abcdefghi''" "to_lower (coord ! 0)"]
    by simp
  moreover have "col = NaN \<or> (\<exists>k. col = Num k \<and> 0 \<le> k \<and> k \<le> 8)"
  proof (cases col)
    case (Num k)
    with assms show ?thesis
      by (auto simp: parse_coord_def Let_def split: if_splits)
  qed simp
  ultimately show ?thesis ..
qed

text \<open>C17: a coordinate that passes the guards of \<^verbatim>\<open>checkStr\<close> names a row
  \<open>0\<close>..\<open>8\<close>, and a column that is either \<open>0\<close>..\<open>8\<close> or \<open>NaN\<close>.\<close>

theorem parse_coord_bounds:
  assumes "parse_coord coord = Inr (r, col)"
  shows "r < 9 \<and> (col = NaN \<or> (\<exists>k. col = Num k \<and> 0 \<le> k \<and> k \<le> 8))"
  using assms by (rule parse_coord_range)

text \<open>C18: with two characters, a first character that is not a row letter
  \<open>a\<close>..\<open>i\<close> or \<open>A\<close>..\<open>I\<close>, or a second character \<open>0\<close> or a character that
  is neither digit nor white space, always gives \<open>InvalidCoordinate\<close>.\<close>

theorem parse_coord_rejects:
  assumes "to_lower (coord ! 0) \<notin> set ''abcdefghi'' \<or> coord ! 1 = CHR ''0'' \<or> is_nan_char (coord ! 1)"
  shows "parse_coord coord = Inl InvalidCoordinate"
proof (rule ccontr)
  assume "parse_coord coord \<noteq> Inl InvalidCoordinate"
  then obtain r col where ok: "parse_coord coord = Inr (r, col)"
    by (auto simp: parse_coord_def Let_def split: if_splits)
  note c = parse_coord_Inr_cases [OF ok]
  have "to_lower (coord ! 0) \<in> set ''abcdefghi''"
    using c(3) index_of_nonneg by blast
  moreover have "coord ! 1 \<noteq> CHR ''0''"
  proof
    assume "coord ! 1 = CHR ''0''"
    then have "col = Num (-1)"
      using c(4) by (simp add: parse_int_char_def is_digit_def digit_val_def)
    then show False
      using parse_coord_range [OF ok] by simp
  qed
  ultimately show False
    using assms c(5) by blast
qed

text \<open>C19: a value that passes the guards of \<^verbatim>\<open>checkStr\<close> is \<open>1\<close>..\<open>9\<close>
  or \<open>NaN\<close>; a digit value is accepted exactly when it is \<open>1\<close>..\<open>9\<close>.\<close>

theorem parse_value_cases:
  assumes "parse_value valStr = Inr v"
  shows "v = NaN \<or> (\<exists>k. v = Num k \<and> 1 \<le> k \<and> k \<le> 9)"
proof (cases v)
  case (Num k)
  with assms show ?thesis
    by (auto simp: parse_value_def split: if_splits)
qed simp

end
