(* ===== verification/Placement.thy ===== *)
theory Placement
  imports Validator
begin

text \<open>
  The placement checks of \<^verbatim>\<open>src/controllers/sudoku-solver.js\<close>:
  \<^verbatim>\<open>checkRowPlacement\<close>, \<^verbatim>\<open>checkColPlacement\<close> and
  \<^verbatim>\<open>checkRegionPlacement\<close> (lines 42--69) decode the puzzle string and scan a
  row, a column or a 3x3 region for the value; \<^verbatim>\<open>check\<close> (lines 71--74) is the
  solver's test on a grid, which first writes the grid back to a string; and
  \<^verbatim>\<open>checkStr\<close> (lines 76--96) is the public check operation.  The abstract
  specification is \<open>placement_ok\<close>: the cell already holds the value, or the
  value occurs nowhere in the cell's row, column and region.
\<close>

section \<open>The three scans\<close>

text \<open>The row index is a number \<open>0\<close>..\<open>8\<close> in every call of the code
  (the solver's position, or a row that passed \<open>parse_coord\<close>); the column
  may be \<open>NaN\<close> when it comes from \<^verbatim>\<open>checkStr\<close>.\<close>

definition check_row_placement :: "string \<Rightarrow> nat \<Rightarrow> jsnum \<Rightarrow> jsnum \<Rightarrow> bool" where
  "check_row_placement puzzleString row column value =
     (let puzzle = build_puzzle puzzleString in
      list_all (\<lambda>i. \<not> js_eq (puzzle ! row ! i) value) [0..<9])"

definition check_col_placement :: "string \<Rightarrow> nat \<Rightarrow> jsnum \<Rightarrow> jsnum \<Rightarrow> bool" where
  "check_col_placement puzzleString row column value =
     (let puzzle = build_puzzle puzzleString in
      list_all (\<lambda>i. \<not> js_eq_opt (js_index (puzzle ! i) column) value) [0..<9])"

text \<open>The inner loop \<^verbatim>\<open>for (j = regionCol; j < regionCol + 3; j++)\<close> runs
  over three columns, and not at all when \<^verbatim>\<open>regionCol\<close> is \<open>NaN\<close>.\<close>

fun region_cols :: "jsnum \<Rightarrow> jsnum list" where
  "region_cols (Num k) = map Num [k..k + 2]"
| "region_cols NaN = []"

definition check_region_placement :: "string \<Rightarrow> nat \<Rightarrow> jsnum \<Rightarrow> jsnum \<Rightarrow> bool" where
  "check_region_placement puzzleString row column value =
     (let puzzle = build_puzzle puzzleString;
          regionRow = row div 3 * 3;
          regionCol = js_floor3 column
      in list_all (\<lambda>i. list_all (\<lambda>j. \<not> js_eq_opt (js_index (puzzle ! i) j) value)
                          (region_cols regionCol))
           [regionRow..<regionRow + 3])"

section \<open>The solver's check\<close>

definition check :: "grid \<Rightarrow> nat \<Rightarrow> nat \<Rightarrow> int \<Rightarrow> bool" where
  "check puzzle row col value =
     (let puzzleString = build_puzzle_string puzzle in
      js_eq (puzzle ! row ! col) (Num value)
      \<or> check_row_placement puzzleString row (Num (int col)) (Num value)
        \<and> check_col_placement puzzleString row (Num (int col)) (Num value)
        \<and> check_region_placement puzzleString row (Num (int col)) (Num value))"

section \<open>The public check operation: checkStr\<close>

text \<open>\<^verbatim>\<open>{valid: true}\<close> or \<^verbatim>\<open>{valid: false, conflict: failList}\<close>.\<close>

datatype check_outcome = Valid | Conflicts "string list"

definition check_str :: "string option \<Rightarrow> string option \<Rightarrow> string option \<Rightarrow> error + check_outcome" where
  "check_str puzzleStr coord valStr =
     (if js_falsy coord \<or> js_falsy valStr \<or> js_falsy puzzleStr then Inl RequiredFieldsMissing
      else case validate puzzleStr of
        Some e \<Rightarrow> Inl e
      | None \<Rightarrow>
        (case parse_coord (the coord) of
          Inl e \<Rightarrow> Inl e
        | Inr (coordRow, coordCol) \<Rightarrow>
          (case parse_value (the valStr) of
            Inl e \<Rightarrow> Inl e
          | Inr value \<Rightarrow>
            let ps = the puzzleStr in
            if js_eq_opt (js_index (build_puzzle ps ! coordRow) coordCol) value then Inr Valid
            else
              let failList =
                (if \<not> check_row_placement ps coordRow coordCol value then [''row''] else [])
                @ (if \<not> check_col_placement ps coordRow coordCol value then [''column''] else [])
                @ (if \<not> check_region_placement ps coordRow coordCol value then [''region''] else [])
              in if failList \<noteq> [] then Inr (Conflicts failList) else Inr Valid)))"

section \<open>Abstract specification\<close>

text \<open>Where a value occurs on a grid, in the sense of the spec: in row \<open>r\<close>,
  in column \<open>c\<close>, in the 3x3 region of cell \<open>(r, c)\<close>.\<close>

definition in_row :: "grid \<Rightarrow> nat \<Rightarrow> int \<Rightarrow> bool" where
  "in_row g r v \<longleftrightarrow> (\<exists>j<9. g ! r ! j = Num v)"

definition in_col :: "grid \<Rightarrow> nat \<Rightarrow> int \<Rightarrow> bool" where
  "in_col g c v \<longleftrightarrow> (\<exists>i<9. g ! i ! c = Num v)"

definition in_region :: "grid \<Rightarrow> nat \<Rightarrow> nat \<Rightarrow> int \<Rightarrow> bool" where
  "in_region g r c v \<longleftrightarrow> (\<exists>i<9. \<exists>j<9. i div 3 = r div 3 \<and> j div 3 = c div 3 \<and> g ! i ! j = Num v)"

definition placement_ok :: "grid \<Rightarrow> nat \<Rightarrow> nat \<Rightarrow> int \<Rightarrow> bool" where
  "placement_ok g r c v \<longleftrightarrow>
     g ! r ! c = Num v \<or> (\<not> in_row g r v \<and> \<not> in_col g c v \<and> \<not> in_region g r c v)"

section \<open>The scans refine the abstract predicates\<close>

lemma same_block_iff: "(i::nat) div 3 = r div 3 \<longleftrightarrow> r div 3 * 3 \<le> i \<and> i < r div 3 * 3 + 3"
proof
  assume "i div 3 = r div 3"
  then show "r div 3 * 3 \<le> i \<and> i < r div 3 * 3 + 3"
    using div_mult_mod_eq [of i 3] mod_less_divisor [of 3 i] by linarith
next
  assume "r div 3 * 3 \<le> i \<and> i < r div 3 * 3 + 3"
  then show "i div 3 = r div 3"
    by (intro div_nat_eqI) auto
qed

lemma block3_iff:
  "(j::nat) div 3 = c div 3 \<longleftrightarrow> j = c div 3 * 3 \<or> j = c div 3 * 3 + 1 \<or> j = c div 3 * 3 + 2"
  unfolding same_block_iff by auto

lemma block_bound: "(c::nat) < 9 \<Longrightarrow> c div 3 * 3 + 2 < 9"
proof -
  assume "c < 9"
  then have "c div 3 < 3" by (simp add: div_less_iff_less_mult)
  then show ?thesis by linarith
qed

lemma list_all_upt_iff: "list_all P [a..<b] \<longleftrightarrow> (\<forall>i. a \<le> i \<and> i < b \<longrightarrow> P i)"
  by (auto simp: list_all_iff)

lemma region_cols_nat:
  "region_cols (js_floor3 (Num (int c))) = map (\<lambda>j. Num (int j)) [c div 3 * 3..<c div 3 * 3 + 3]"
proof -
  have e: "js_floor3 (Num (int c)) = Num (int (c div 3 * 3))"
    by (simp add: zdiv_int)
  have "[int k..int k + 2] = map int [k..<k + 3]" for k :: nat
    by (simp add: upto_rec1 numeral_3_eq_3)
  from this [of "c div 3 * 3"] show ?thesis
    by (simp only: e region_cols.simps map_map comp_def)
qed

lemma scan_row:
  "r < 9 \<Longrightarrow> check_row_placement ps r col (Num v) \<longleftrightarrow> \<not> in_row (build_puzzle ps) r v"
  by (auto simp: check_row_placement_def in_row_def list_all_upt_iff js_simps simp del: build_puzzle_nth)

lemma scan_col:
  "c < 9 \<Longrightarrow> check_col_placement ps r (Num (int c)) (Num v) \<longleftrightarrow> \<not> in_col (build_puzzle ps) c v"
  by (auto simp: check_col_placement_def in_col_def list_all_upt_iff js_simps simp del: build_puzzle_nth)

lemma scan_region:
  assumes "r < 9" and "c < 9"
  shows "check_region_placement ps r (Num (int c)) (Num v) \<longleftrightarrow> \<not> in_region (build_puzzle ps) r c v"
proof -
  have k: "c div 3 * 3 + 2 < 9" by (rule block_bound [OF assms(2)])
  have rr: "r div 3 * 3 + 2 < 9" by (rule block_bound [OF assms(1)])
  show ?thesis
    unfolding check_region_placement_def Let_def region_cols_nat in_region_def
      same_block_iff [of _ r] same_block_iff [of _ c]
    using k rr by (auto simp: list_all_upt_iff list_all_iff js_simps simp del: build_puzzle_nth)
qed

section \<open>The solver's check refines placement_ok\<close>

lemma check_placement_ok:
  assumes "wf_grid g" and "r < 9" and "c < 9"
  shows "check g r c v \<longleftrightarrow> placement_ok g r c v"
  using assms
  by (simp add: check_def placement_ok_def Let_def scan_row scan_col scan_region
      build_puzzle_string_inv js_simps)

text \<open>C12: on a well-formed grid, the solver's \<^verbatim>\<open>check\<close>, which writes the grid
  to a string and scans the decoded copy, accepts a value exactly when the
  abstract \<open>placement_ok\<close> holds.\<close>

theorem check_refines:
  assumes "wf_grid g" and "r < 9" and "c < 9"
  shows "check g r c v \<longleftrightarrow> placement_ok g r c v"
  using assms by (rule check_placement_ok)

section \<open>checkStr\<close>

lemma check_str_fields:
  assumes "parse_coord coord = Inr (r, col)" and "parse_value valStr = Inr v"
  shows "coord \<noteq> []" and "valStr \<noteq> []"
  using parse_coord_Inr_cases(1) [OF assms(1)] parse_value_Inr_cases(1) [OF assms(2)] by auto

lemma check_str_valid_input:
  assumes "length ps = 81" and "list_all puzzle_char ps"
    and "parse_coord coord = Inr (r, Num (int c))" and "parse_value valStr = Inr (Num v)"
  shows "check_str (Some ps) (Some coord) (Some valStr) =
    (let g = build_puzzle ps in
     if g ! r ! c = Num v then Inr Valid
     else let cs = (if in_row g r v then [''row''] else [])
                 @ (if in_col g c v then [''column''] else [])
                 @ (if in_region g r c v then [''region''] else [])
          in if cs = [] then Inr Valid else Inr (Conflicts cs))"
proof -
  have rc: "r < 9" "c < 9"
    using parse_coord_range [OF assms(3)] by auto
  have "validate (Some ps) = None"
    using assms(1,2) by (auto simp: validate_None_iff list_all_iff puzzle_char_regex_char)
  moreover have "ps \<noteq> []" using assms(1) by auto
  ultimately show ?thesis
    using assms rc check_str_fields [OF assms(3,4)]
    by (simp add: check_str_def Let_def scan_row scan_col scan_region js_simps del: build_puzzle_nth)
qed

text \<open>C13: on a valid puzzle string, a coordinate in range and a value
  \<open>1\<close>..\<open>9\<close>, \<^verbatim>\<open>checkStr\<close> answers valid when the cell already holds the
  value, and otherwise lists, in the order row, column, region, every group in
  which the value already occurs; valid when there is none.\<close>

theorem check_str_result:
  assumes "length ps = 81" and "list_all puzzle_char ps"
    and "parse_coord coord = Inr (r, Num (int c))" and "parse_value valStr = Inr (Num v)"
  shows "check_str (Some ps) (Some coord) (Some valStr) =
    (let g = build_puzzle ps in
     if g ! r ! c = Num v then Inr Valid
     else let cs = (if in_row g r v then [''row''] else [])
                 @ (if in_col g c v then [''column''] else [])
                 @ (if in_region g r c v then [''region''] else [])
          in if cs = [] then Inr Valid else Inr (Conflicts cs))"
  using assms by (rule check_str_valid_input)

section \<open>checkStr on NaN operands\<close>

text \<open>A value or column that \<^verbatim>\<open>parseInt\<close> reads as \<open>NaN\<close> passes the
  guards of \<^verbatim>\<open>checkStr\<close> when it is a white-space character (\<^verbatim>\<open>isNaN(' ')\<close>
  is false).  \<open>NaN\<close> equals nothing, and a \<open>NaN\<close> column selects no cell.\<close>

lemma scans_nan_value:
  "check_row_placement ps r col NaN" "check_col_placement ps r col NaN"
  "check_region_placement ps r col NaN"
  by (simp_all add: check_row_placement_def check_col_placement_def
      check_region_placement_def Let_def list_all_iff js_simps)

lemma scans_nan_column:
  "check_col_placement ps r NaN v" "check_region_placement ps r NaN v"
  by (simp_all add: check_col_placement_def check_region_placement_def Let_def list_all_iff)

text \<open>C26: a value read as \<open>NaN\<close> is reported valid at every cell of every
  valid puzzle.\<close>

theorem check_str_nan_value:
  assumes "validate (Some ps) = None" and "parse_coord coord = Inr (r, col)"
    and "parse_value valStr = Inr NaN"
  shows "check_str (Some ps) (Some coord) (Some valStr) = Inr Valid"
proof -
  have "ps \<noteq> []" using assms(1) by (auto simp: validate_def)
  then show ?thesis
    using assms check_str_fields [OF assms(2,3)]
    by (simp add: check_str_def Let_def scans_nan_value js_simps del: build_puzzle_nth)
qed

text \<open>C27: when the column is read as \<open>NaN\<close>, \<^verbatim>\<open>checkStr\<close> reports at most a
  row conflict: the column and region scans find nothing.\<close>

theorem check_str_nan_column:
  assumes "length ps = 81" and "list_all puzzle_char ps"
    and "parse_coord coord = Inr (r, NaN)" and "parse_value valStr = Inr (Num v)"
  shows "check_str (Some ps) (Some coord) (Some valStr) =
    (if in_row (build_puzzle ps) r v then Inr (Conflicts [''row'']) else Inr Valid)"
proof -
  have r: "r < 9" using parse_coord_range [OF assms(3)] by auto
  have "validate (Some ps) = None"
    using assms(1,2) by (auto simp: validate_None_iff list_all_iff puzzle_char_regex_char)
  moreover have "ps \<noteq> []" using assms(1) by auto
  ultimately show ?thesis
    using assms r check_str_fields [OF assms(3,4)]
    by (simp add: check_str_def Let_def scan_row scans_nan_column js_simps del: build_puzzle_nth)
qed

section \<open>The error results of checkStr\<close>

text \<open>C20: \<^verbatim>\<open>checkStr\<close> fails with the first failing check, in the order
  of the code: a missing field, then the puzzle string, then the coordinate, then
  the value.\<close>

theorem check_str_errors:
  "check_str p c v = Inl e \<longleftrightarrow>
      (js_falsy c \<or> js_falsy v \<or> js_falsy p) \<and> e = RequiredFieldsMissing
    \<or> \<not> (js_falsy c \<or> js_falsy v \<or> js_falsy p) \<and> validate p = Some e
    \<or> \<not> (js_falsy c \<or> js_falsy v \<or> js_falsy p) \<and> validate p = None \<and> parse_coord (the c) = Inl e
    \<or> \<not> (js_falsy c \<or> js_falsy v \<or> js_falsy p) \<and> validate p = None
      \<and> (\<exists>rc. parse_coord (the c) = Inr rc) \<and> parse_value (the v) = Inl e"
  by (auto simp: check_str_def Let_def split: option.splits sum.splits prod.splits)

text \<open>C21: checking a cell against the value it already holds answers valid
  (the self-match of line 86), although the value then occurs in the cell's row,
  column and region.\<close>

theorem check_str_self:
  assumes "validate (Some ps) = None" and "parse_coord coord = Inr (r, Num (int c))"
    and "parse_value valStr = Inr (Num v)" and "build_puzzle ps ! r ! c = Num v"
  shows "check_str (Some ps) (Some coord) (Some valStr) = Inr Valid"
proof -
  have rc: "r < 9" "c < 9" using parse_coord_range [OF assms(2)] by auto
  have "ps \<noteq> []" using assms(1) by (auto simp: validate_def)
  then show ?thesis
    using assms rc check_str_fields [OF assms(2,3)]
    by (simp add: check_str_def js_simps del: build_puzzle_nth)
qed

end
