(* ===== verification/Solver.thy ===== *)
theory Solver
  imports Placement
begin

text \<open>
  The backtracking solver of \<^verbatim>\<open>src/controllers/sudoku-solver.js\<close>:
  \<^verbatim>\<open>solveLoc\<close> (lines 105--120) and \<^verbatim>\<open>solve\<close> (lines 97--103).
  \<^verbatim>\<open>solveLoc\<close> mutates one array in place and returns a boolean; the model
  passes the grid explicitly and returns the boolean with the grid as it is when
  the call returns.  The \<^verbatim>\<open>for\<close> loop over the candidates \<open>1\<close>..\<open>9\<close> is the
  function \<open>try_nums\<close>, mutually recursive with \<open>solve_loc\<close>.  A result
  \<open>None\<close> is an exception: reading \<^verbatim>\<open>puzzle[row][col]\<close> past the last row
  throws a \<^verbatim>\<open>TypeError\<close>.  The model also gives \<open>None\<close> for a column past
  the end of a row, which no call of the code reaches (the column is at most
  \<open>9\<close> and is reset to \<open>0\<close> before it is used as an index), and the theorems
  below show that \<open>solve\<close> never meets either.

  The model is faithful on 9x9 grids, the only grids \<open>solve\<close> passes
  (\<open>build_puzzle\<close> always builds one).  On a grid with fewer rows or shorter
  rows JavaScript throws when \<^verbatim>\<open>puzzle[row]\<close> is \<^verbatim>\<open>undefined\<close> or when
  \<^verbatim>\<open>buildPuzzleString\<close> reads a missing cell; the model reads an unspecified
  HOL value there instead, so its lemmas about other grids say nothing about the
  code.  The theorems assume \<open>wf_grid\<close> or start from \<open>build_puzzle\<close>;
  the few stated for every grid describe the code only on 9x9 grids.
\<close>

text \<open>\<^verbatim>\<open>puzzle[row][col] = v\<close>.\<close>

definition set_cell :: "grid \<Rightarrow> nat \<Rightarrow> nat \<Rightarrow> jsnum \<Rightarrow> grid" where
  "set_cell puzzle row col v = puzzle[row := (puzzle ! row)[col := v]]"

function solve_loc :: "grid \<Rightarrow> nat \<Rightarrow> nat \<Rightarrow> (bool \<times> grid) option"
  and try_nums :: "grid \<Rightarrow> nat \<Rightarrow> nat \<Rightarrow> nat \<Rightarrow> (bool \<times> grid) option" where
  "solve_loc puzzle row col =
     (if row = 8 \<and> col = 9 then Some (True, puzzle)
      else
        let row' = (if col = 9 then row + 1 else row);
            col' = (if col = 9 then 0 else col)
        in if 8 < row' \<or> 8 < col' then None
           else if js_pos (puzzle ! row' ! col') then solve_loc puzzle row' (col' + 1)
           else try_nums puzzle row' col' 1)"
| "try_nums puzzle row col num =
     (if 8 < row \<or> 8 < col then None
      else if 9 < num then Some (False, puzzle)
      else if check puzzle row col (int num) then
        (case solve_loc (set_cell puzzle row col (Num (int num))) row (col + 1) of
          None \<Rightarrow> None
        | Some (True, puzzle') \<Rightarrow> Some (True, puzzle')
        | Some (False, puzzle') \<Rightarrow> try_nums (set_cell puzzle' row col (Num 0)) row col (num + 1))
      else try_nums (set_cell puzzle row col (Num 0)) row col (num + 1))"
  by pat_completeness auto

text \<open>Termination: the row-major position \<open>9 * row + col\<close> grows with every
  call of \<open>solve_loc\<close> and stays below 82; at one position the candidate
  \<open>num\<close> grows up to 10.\<close>

termination
  by (relation "measures
      [\<lambda>x. case x of Inl (p, r, c) \<Rightarrow> 82 - (9 * r + c) | Inr (p, r, c, n) \<Rightarrow> 82 - (9 * r + c),
       \<lambda>x. case x of Inl _ \<Rightarrow> 11 | Inr (p, r, c, n) \<Rightarrow> 10 - n]") auto

declare solve_loc.simps [simp del] try_nums.simps [simp del]

text \<open>\<^verbatim>\<open>solve\<close>: validate, decode, search from cell \<open>(0, 0)\<close>, encode.  An
  exception escaping the search is \<open>Thrown\<close>.\<close>

datatype solve_error = Rejected error | Thrown

definition solve :: "string option \<Rightarrow> solve_error + string" where
  "solve puzzleString =
     (case validate puzzleString of
       Some e \<Rightarrow> Inl (Rejected e)
     | None \<Rightarrow>
         (case solve_loc (build_puzzle (the puzzleString)) 0 0 of
           None \<Rightarrow> Inl Thrown
         | Some (False, _) \<Rightarrow> Inl (Rejected CannotBeSolved)
         | Some (True, puzzle) \<Rightarrow> Inr (build_puzzle_string puzzle)))"

section \<open>Specification of a solution\<close>

text \<open>Two cells are peers when they are distinct and share a row, a column or
  a 3x3 region.  A solution of a grid \<open>g0\<close> (the spec, section 3) is a
  well-formed grid with every cell \<open>1\<close>..\<open>9\<close>, equal to \<open>g0\<close> on its filled
  cells, in which no cell has the value of a peer.  \<open>placed_ok g0 g\<close> is the
  weaker property the search maintains: every cell that was empty in \<open>g0\<close>
  and is filled in \<open>g\<close> differs from all its peers.  \<open>keeps\<close> and
  \<open>filled_from\<close> speak of the row-major position \<open>9 * row + col\<close>.\<close>

definition peers :: "nat \<Rightarrow> nat \<Rightarrow> nat \<Rightarrow> nat \<Rightarrow> bool" where
  "peers i j i' j' \<longleftrightarrow> (i', j') \<noteq> (i, j) \<and> (i' = i \<or> j' = j \<or> (i' div 3 = i div 3 \<and> j' div 3 = j div 3))"

definition no_clash :: "grid \<Rightarrow> nat \<Rightarrow> nat \<Rightarrow> bool" where
  "no_clash g i j \<longleftrightarrow> (\<forall>i'<9. \<forall>j'<9. peers i j i' j' \<longrightarrow> g ! i' ! j' \<noteq> g ! i ! j)"

definition placed_ok :: "grid \<Rightarrow> grid \<Rightarrow> bool" where
  "placed_ok g0 g \<longleftrightarrow> (\<forall>i<9. \<forall>j<9. g0 ! i ! j = Num 0 \<longrightarrow> g ! i ! j \<noteq> Num 0 \<longrightarrow> no_clash g i j)"

definition keeps :: "grid \<Rightarrow> grid \<Rightarrow> nat \<Rightarrow> bool" where
  "keeps p p' k \<longleftrightarrow> (\<forall>i<9. \<forall>j<9. (9 * i + j < k \<or> js_pos (p ! i ! j)) \<longrightarrow> p' ! i ! j = p ! i ! j)"

definition filled_from :: "grid \<Rightarrow> nat \<Rightarrow> bool" where
  "filled_from g k \<longleftrightarrow> (\<forall>i<9. \<forall>j<9. k \<le> 9 * i + j \<longrightarrow> js_pos (g ! i ! j))"

definition extends :: "grid \<Rightarrow> grid \<Rightarrow> bool" where
  "extends p q \<longleftrightarrow> (\<forall>i<9. \<forall>j<9. js_pos (p ! i ! j) \<longrightarrow> q ! i ! j = p ! i ! j)"

definition complete :: "grid \<Rightarrow> bool" where
  "complete g \<longleftrightarrow> (\<forall>i<9. \<forall>j<9. js_pos (g ! i ! j))"

definition empties_within :: "grid \<Rightarrow> grid \<Rightarrow> bool" where
  "empties_within g0 p \<longleftrightarrow> (\<forall>i<9. \<forall>j<9. p ! i ! j = Num 0 \<longrightarrow> g0 ! i ! j = Num 0)"

definition is_solution :: "grid \<Rightarrow> grid \<Rightarrow> bool" where
  "is_solution g0 g \<longleftrightarrow>
     wf_grid g \<and> complete g \<and> extends g0 g \<and> (\<forall>i<9. \<forall>j<9. no_clash g i j)"

definition givens_consistent :: "grid \<Rightarrow> bool" where
  "givens_consistent g0 \<longleftrightarrow> (\<forall>i<9. \<forall>j<9. js_pos (g0 ! i ! j) \<longrightarrow> no_clash g0 i j)"

section \<open>Lemmas on the search\<close>

lemma set_cell_nth [simp]:
  assumes "wf_grid p" and "r < 9" and "c < 9" and "i < 9" and "j < 9"
  shows "set_cell p r c v ! i ! j = (if i = r \<and> j = c then v else p ! i ! j)"
  using assms wf_grid_nth [OF assms(1,2,3)] by (auto simp: set_cell_def wf_grid_def nth_list_update)

lemma wf_set_cell [simp]:
  assumes "wf_grid p" and "r < 9" and "c < 9"
  shows "wf_grid (set_cell p r c v) \<longleftrightarrow> cell_ok v"
proof -
  have len: "length (set_cell p r c v) = 9" "\<And>i. i < 9 \<Longrightarrow> length (set_cell p r c v ! i) = 9"
    using assms wf_grid_nth [OF assms(1)] by (auto simp: set_cell_def wf_grid_def nth_list_update)
  show ?thesis
  proof
    assume "wf_grid (set_cell p r c v)"
    then show "cell_ok v" using wf_grid_nth [of _ r c] assms by fastforce
  next
    assume "cell_ok v"
    then show "wf_grid (set_cell p r c v)"
      using assms len wf_grid_nth [OF assms(1)] by (intro wf_gridI) auto
  qed
qed

lemma set_cell_id: "p ! r ! c = v \<Longrightarrow> set_cell p r c v = p"
  by (metis list_update_id set_cell_def)

lemma set_cell_twice: "r < length p \<Longrightarrow> set_cell (set_cell p r c v) r c w = set_cell p r c w"
  by (simp add: set_cell_def)

lemma cell_ok_not_pos: "cell_ok x \<Longrightarrow> \<not> js_pos x \<longleftrightarrow> x = Num 0"
  by (cases x) auto

lemma solve_wf:
  shows "solve_loc p r c = Some (b, p') \<Longrightarrow> wf_grid p \<Longrightarrow> wf_grid p'"
    and "try_nums p r c n = Some (b, p') \<Longrightarrow> wf_grid p \<Longrightarrow> wf_grid p'"
proof (induction p r c and p r c n arbitrary: b p' and b p' rule: solve_loc_try_nums.induct)
  case (1 puzzle row col)
  then show ?case
    by (auto simp: solve_loc.simps [of puzzle row col] Let_def split: if_splits)
next
  case (2 puzzle row col num)
  then show ?case
    by (auto simp: try_nums.simps [of puzzle row col num] split: if_splits option.splits bool.splits)
qed

lemma solve_total:
  shows "r \<le> 8 \<Longrightarrow> c \<le> 9 \<Longrightarrow> solve_loc p r c \<noteq> None"
    and "r \<le> 8 \<Longrightarrow> c \<le> 8 \<Longrightarrow> try_nums p r c n \<noteq> None"
proof (induction p r c and p r c n rule: solve_loc_try_nums.induct)
  case (1 puzzle row col)
  then show ?case
    by (auto simp: solve_loc.simps [of puzzle row col] Let_def)
next
  case (2 puzzle row col num)
  let ?p1 = "set_cell puzzle row col (Num (int num))"
  have g: "\<not> (8 < row \<or> 8 < col)" using "2.prems" by simp
  show ?case
  proof (cases "9 < num")
    case True
    then show ?thesis using g by (simp add: try_nums.simps [of puzzle row col num])
  next
    case big: False
    show ?thesis
    proof (cases "check puzzle row col (int num)")
      case chk: True
      have "solve_loc ?p1 row (col + 1) \<noteq> None"
        using "2.IH"(1) g big chk "2.prems" by simp
      then obtain b q where sq: "solve_loc ?p1 row (col + 1) = Some (b, q)" by auto
      have "\<not> b \<Longrightarrow> try_nums (set_cell q row col (Num 0)) row col (num + 1) \<noteq> None"
        using "2.IH"(2) [OF g big chk sq refl] "2.prems" by simp
      then show ?thesis using g big chk sq by (cases b) (simp_all add: try_nums.simps [of puzzle row col num])
    next
      case chk: False
      have "try_nums (set_cell puzzle row col (Num 0)) row col (num + 1) \<noteq> None"
        using "2.IH"(3) g big chk "2.prems" by simp
      then show ?thesis using g big chk by (simp add: try_nums.simps [of puzzle row col num])
    qed
  qed
qed

lemma peers_sym: "peers i j i' j' \<longleftrightarrow> peers i' j' i j"
  by (auto simp: peers_def)

lemma not_in_units_peer:
  assumes "\<not> in_row p r v" and "\<not> in_col p c v" and "\<not> in_region p r c v"
    and "peers r c i j" and "i < 9" and "j < 9"
  shows "p ! i ! j \<noteq> Num v"
  using assms by (auto simp: peers_def in_row_def in_col_def in_region_def)

lemma placed_ok_place:
  assumes wf: "wf_grid p" and ok: "placed_ok g0 p" and rc: "r < 9" "c < 9"
    and empty: "p ! r ! c = Num 0" and v: "1 \<le> v"
    and pl: "placement_ok p r c v"
  shows "placed_ok g0 (set_cell p r c (Num v))"
proof -
  have fresh: "\<not> in_row p r v" "\<not> in_col p c v" "\<not> in_region p r c v"
    using pl empty v by (auto simp: placement_ok_def)
  show ?thesis
    unfolding placed_ok_def no_clash_def
  proof (intro allI impI)
    fix i j i' j'
    assume ij: "i < 9" "j < 9" and g0: "g0 ! i ! j = Num 0"
      and nz: "set_cell p r c (Num v) ! i ! j \<noteq> Num 0"
      and i'j': "i' < 9" "j' < 9" and pe: "peers i j i' j'"
    show "set_cell p r c (Num v) ! i' ! j' \<noteq> set_cell p r c (Num v) ! i ! j"
    proof (cases "i = r \<and> j = c")
      case True
      then show ?thesis
        using not_in_units_peer [OF fresh _ i'j'] pe wf rc ij i'j' by (auto simp: peers_def)
    next
      case False
      then have old: "p ! i ! j \<noteq> Num 0" "no_clash p i j"
        using ok nz g0 wf rc ij by (auto simp: placed_ok_def)
      show ?thesis
      proof (cases "i' = r \<and> j' = c")
        case True
        have "peers r c i j" using pe True by (simp add: peers_sym)
        then show ?thesis
          using not_in_units_peer [OF fresh _ ij] True False wf rc ij by auto
      next
        case False
        then show ?thesis
          using old \<open>\<not> (i = r \<and> j = c)\<close> pe wf rc ij i'j' by (auto simp: no_clash_def)
      qed
    qed
  qed
qed

lemma placed_ok_clear:
  assumes wf: "wf_grid p" and ok: "placed_ok g0 p" and rc: "r < 9" "c < 9"
  shows "placed_ok g0 (set_cell p r c (Num 0))"
  using assms by (auto simp: placed_ok_def no_clash_def)

lemma wf_empty_cell: "wf_grid p \<Longrightarrow> i < 9 \<Longrightarrow> j < 9 \<Longrightarrow> \<not> js_pos (p ! i ! j) \<Longrightarrow> p ! i ! j = Num 0"
  using wf_grid_nth cell_ok_not_pos by blast

lemma solve_loc_SomeE:
  assumes "solve_loc p row col = Some res"
  obtains (stop) "row = 8" "col = 9" "res = (True, p)"
  | (filled) r' c' where "\<not> (row = 8 \<and> col = 9)" "r' = (if col = 9 then row + 1 else row)"
      "c' = (if col = 9 then 0 else col)" "r' \<le> 8" "c' \<le> 8" "js_pos (p ! r' ! c')"
      "solve_loc p r' (c' + 1) = Some res"
  | (empty) r' c' where "\<not> (row = 8 \<and> col = 9)" "r' = (if col = 9 then row + 1 else row)"
      "c' = (if col = 9 then 0 else col)" "r' \<le> 8" "c' \<le> 8" "\<not> js_pos (p ! r' ! c')"
      "try_nums p r' c' 1 = Some res"
proof (cases "row = 8 \<and> col = 9")
  case True
  have "solve_loc p row col = Some (True, p)"
    unfolding solve_loc.simps [of p row col] using True by simp
  with assms True stop show ?thesis by simp
next
  case False
  define r' where "r' = (if col = 9 then row + 1 else row)"
  define c' where "c' = (if col = 9 then 0 else col)"
  have eq: "solve_loc p row col =
      (if 8 < r' \<or> 8 < c' then None
       else if js_pos (p ! r' ! c') then solve_loc p r' (c' + 1) else try_nums p r' c' 1)"
    using False unfolding r'_def c'_def by (simp add: solve_loc.simps [of p row col] Let_def)
  show ?thesis
  proof (cases "8 < r' \<or> 8 < c'")
    case True
    with assms eq show ?thesis by simp
  next
    case ok: False
    show ?thesis
    proof (cases "js_pos (p ! r' ! c')")
      case True
      with ok assms eq False filled [OF _ r'_def c'_def] show ?thesis by simp
    next
      case nf: False
      with ok assms eq \<open>\<not> (row = 8 \<and> col = 9)\<close> empty [OF _ r'_def c'_def] show ?thesis by simp
    qed
  qed
qed

lemma try_nums_SomeE:
  assumes "try_nums p r c n = Some res"
  obtains (stop) "r < 9" "c < 9" "9 < n" "res = (False, p)"
  | (found) q where "r < 9" "c < 9" "n \<le> 9" "check p r c (int n)"
      "solve_loc (set_cell p r c (Num (int n))) r (c + 1) = Some (True, q)" "res = (True, q)"
  | (retry) q where "r < 9" "c < 9" "n \<le> 9" "check p r c (int n)"
      "solve_loc (set_cell p r c (Num (int n))) r (c + 1) = Some (False, q)"
      "try_nums (set_cell q r c (Num 0)) r c (n + 1) = Some res"
  | (skip) "r < 9" "c < 9" "n \<le> 9" "\<not> check p r c (int n)"
      "try_nums (set_cell p r c (Num 0)) r c (n + 1) = Some res"
proof -
  have g: "r < 9" "c < 9"
    using assms by (auto simp: try_nums.simps [of p r c n] split: if_splits)
  show ?thesis
  proof (cases "9 < n")
    case True
    with assms g stop show ?thesis by (simp add: try_nums.simps [of p r c n])
  next
    case big: False
    show ?thesis
    proof (cases "check p r c (int n)")
      case chk: True
      then obtain b q where sq: "solve_loc (set_cell p r c (Num (int n))) r (c + 1) = Some (b, q)"
        using assms g big by (auto simp: try_nums.simps [of p r c n] split: option.splits)
      show ?thesis
      proof (cases b)
        case True
        with assms g big chk sq found show ?thesis by (simp add: try_nums.simps [of p r c n])
      next
        case False
        with assms g big chk sq retry show ?thesis by (simp add: try_nums.simps [of p r c n])
      qed
    next
      case chk: False
      with assms g big skip show ?thesis by (simp add: try_nums.simps [of p r c n])
    qed
  qed
qed

lemma set_cell_back:
  assumes "wf_grid p" and "r < 9" and "p ! r ! c = Num 0"
  shows "set_cell (set_cell p r c v) r c (Num 0) = p"
  using assms by (simp add: set_cell_twice wf_grid_def set_cell_id)

lemma solve_restore:
  shows "solve_loc p r c = Some (False, p') \<Longrightarrow> wf_grid p \<Longrightarrow> p' = p"
    and "try_nums p r c n = Some (False, p') \<Longrightarrow> wf_grid p \<Longrightarrow> p ! r ! c = Num 0 \<Longrightarrow> p' = p"
proof (induction p r c and p r c n arbitrary: p' and p' rule: solve_loc_try_nums.induct)
  case (1 puzzle row col)
  from "1.prems"(1) show ?case
  proof (cases rule: solve_loc_SomeE)
    case (filled r' c')
    then show ?thesis using "1.IH"(1) "1.prems"(2) by simp
  next
    case (empty r' c')
    then show ?thesis using "1.IH"(2) "1.prems"(2) wf_empty_cell by simp
  qed simp
next
  case (2 puzzle row col num)
  from "2.prems"(1) show ?case
  proof (cases rule: try_nums_SomeE)
    case (retry q)
    let ?p1 = "set_cell puzzle row col (Num (int num))"
    have "q = ?p1" using "2.IH"(1) retry "2.prems"(2) by simp
    then have "set_cell q row col (Num 0) = puzzle"
      using set_cell_back "2.prems"(2,3) retry by simp
    then show ?thesis using "2.IH"(2) [of "(False, q)" False q p'] retry "2.prems"(2,3) by simp
  next
    case skip
    then show ?thesis using "2.IH"(3) "2.prems"(2,3) set_cell_id [of puzzle row col "Num 0"] by simp
  qed simp_all
qed

lemma pos_eq_iff:
  assumes "(j::nat) < 9" and "c < 9"
  shows "9 * i + j = 9 * r + c \<longleftrightarrow> i = r \<and> j = c"
proof
  assume eq: "9 * i + j = 9 * r + c"
  have "\<not> i < r"
  proof
    assume "i < r"
    then have "9 * i + 9 \<le> 9 * r" by simp
    with eq assms show False by linarith
  qed
  moreover have "\<not> r < i"
  proof
    assume "r < i"
    then have "9 * r + 9 \<le> 9 * i" by simp
    with eq assms show False by linarith
  qed
  ultimately show "i = r \<and> j = c" using eq by simp
qed simp

lemma solve_loc_pos: "r' = (if col = 9 then row + 1 else row) \<Longrightarrow>
    c' = (if col = 9 then 0 else (col::nat)) \<Longrightarrow> 9 * r' + c' = 9 * row + col"
  by auto

lemma keeps_filled_step:
  assumes "keeps p p' (9 * r + (c + 1))" and "filled_from p' (9 * r + (c + 1))"
    and "r < 9" and "c < 9" and "js_pos (p' ! r ! c)"
  shows "filled_from p' (9 * r + c)"
  unfolding filled_from_def
proof (intro allI impI)
  fix i j assume ij: "i < 9" "j < 9" and le: "9 * r + c \<le> 9 * i + j"
  show "js_pos (p' ! i ! j)"
  proof (cases "9 * i + j = 9 * r + c")
    case True
    then show ?thesis using assms(3-5) ij pos_eq_iff by simp
  next
    case False
    with le have "9 * r + (c + 1) \<le> 9 * i + j" by simp
    then show ?thesis using assms(2) ij by (simp add: filled_from_def)
  qed
qed

lemma solve_sound:
  shows "solve_loc p r c = Some (True, p') \<Longrightarrow> wf_grid p \<Longrightarrow> placed_ok g0 p \<Longrightarrow>
           wf_grid p' \<and> placed_ok g0 p' \<and> keeps p p' (9 * r + c) \<and> filled_from p' (9 * r + c)"
    and "try_nums p r c n = Some (True, p') \<Longrightarrow> wf_grid p \<Longrightarrow> placed_ok g0 p \<Longrightarrow>
           p ! r ! c = Num 0 \<Longrightarrow> 1 \<le> n \<Longrightarrow>
           wf_grid p' \<and> placed_ok g0 p' \<and> keeps p p' (9 * r + c) \<and> filled_from p' (9 * r + c)"
proof (induction p r c and p r c n arbitrary: p' and p' rule: solve_loc_try_nums.induct)
  case (1 puzzle row col)
  from "1.prems"(1) show ?case
  proof (cases rule: solve_loc_SomeE)
    case stop
    then show ?thesis using "1.prems" by (simp add: keeps_def filled_from_def)
  next
    case (filled r' c')
    have pos: "9 * r' + c' = 9 * row + col" using filled(2,3) by (rule solve_loc_pos)
    have nb: "\<not> (8 < r' \<or> 8 < c')" using filled(4,5) by simp
    have ih: "wf_grid p' \<and> placed_ok g0 p' \<and> keeps puzzle p' (9 * r' + (c' + 1))
              \<and> filled_from p' (9 * r' + (c' + 1))"
      by (rule "1.IH"(1) [OF filled(1,2,3) nb filled(6,7) "1.prems"(2,3)])
    have same: "p' ! r' ! c' = puzzle ! r' ! c'"
      using ih filled(4-6) by (simp add: keeps_def)
    have k1: "keeps puzzle p' (9 * r' + (c' + 1))" and f1: "filled_from p' (9 * r' + (c' + 1))"
      using ih by simp_all
    have "keeps puzzle p' (9 * r' + c')"
      using k1 by (auto simp: keeps_def)
    moreover have "filled_from p' (9 * r' + c')"
      using filled(4-6) same by (intro keeps_filled_step [OF k1 f1]) simp_all
    ultimately show ?thesis using ih pos by simp
  next
    case (empty r' c')
    have pos: "9 * r' + c' = 9 * row + col" using empty(2,3) by (rule solve_loc_pos)
    have nb: "\<not> (8 < r' \<or> 8 < c')" using empty(4,5) by simp
    have z: "puzzle ! r' ! c' = Num 0" using empty(4-6) "1.prems"(2) wf_empty_cell by simp
    show ?thesis
      using "1.IH"(2) [OF empty(1,2,3) nb empty(6,7) "1.prems"(2,3) z] pos by simp
  qed
next
  case (2 puzzle row col num)
  from "2.prems"(1) show ?case
  proof (cases rule: try_nums_SomeE)
    case (found q)
    let ?p1 = "set_cell puzzle row col (Num (int num))"
    have g: "\<not> (8 < row \<or> 8 < col)" "\<not> 9 < num" using found(1-3) by simp_all
    have pl: "placement_ok puzzle row col (int num)"
      using found(1,2,4) "2.prems"(2) check_placement_ok by blast
    have wf1: "wf_grid ?p1"
      using found(1-3) "2.prems"(2) by simp
    have ok1: "placed_ok g0 ?p1"
      using found(1,2) "2.prems"(2-5) by (intro placed_ok_place [OF _ _ _ _ _ _ pl]) simp_all
    have ih: "wf_grid q \<and> placed_ok g0 q \<and> keeps ?p1 q (9 * row + (col + 1))
              \<and> filled_from q (9 * row + (col + 1))"
      by (rule "2.IH"(1) [OF g found(4,5) wf1 ok1])
    have qrc: "q ! row ! col = Num (int num)"
      using ih found(1,2) "2.prems"(2) by (simp add: keeps_def)
    have k1: "keeps ?p1 q (9 * row + (col + 1))" and f1: "filled_from q (9 * row + (col + 1))"
      using ih by simp_all
    have "keeps puzzle q (9 * row + col)"
      unfolding keeps_def
    proof (intro allI impI)
      fix i j assume ij: "i < 9" "j < 9" and pre: "9 * i + j < 9 * row + col \<or> js_pos (puzzle ! i ! j)"
      have ne: "\<not> (i = row \<and> j = col)" using pre "2.prems"(4) by auto
      then have "q ! i ! j = ?p1 ! i ! j"
        using k1 ij pre "2.prems"(2) found(1,2) by (auto simp: keeps_def)
      then show "q ! i ! j = puzzle ! i ! j"
        using ne ij "2.prems"(2) found(1,2) by simp
    qed
    moreover have "filled_from q (9 * row + col)"
      using found(1-3) qrc "2.prems"(5) by (intro keeps_filled_step [OF k1 f1]) simp_all
    ultimately show ?thesis using ih found(6) by simp
  next
    case (retry q)
    have g: "\<not> (8 < row \<or> 8 < col)" "\<not> 9 < num" using retry(1-3) by simp_all
    have "q = set_cell puzzle row col (Num (int num))"
      using solve_restore(1) retry(5) "2.prems"(2) retry(1-3) by simp
    then have eq: "set_cell q row col (Num 0) = puzzle"
      using set_cell_back "2.prems"(2,4) retry(1) by simp
    show ?thesis
      using "2.IH"(2) [OF g retry(4,5) refl refl] eq retry(6) "2.prems"(2-4) by simp
  next
    case skip
    have g: "\<not> (8 < row \<or> 8 < col)" "\<not> 9 < num" using skip(1-3) by simp_all
    have eq: "set_cell puzzle row col (Num 0) = puzzle"
      using set_cell_id "2.prems"(4) by blast
    show ?thesis
      using "2.IH"(3) [OF g skip(4)] eq skip(5) "2.prems"(2-4) by simp
  qed simp
qed


lemma peers_free_units:
  assumes free: "\<And>i j. i < 9 \<Longrightarrow> j < 9 \<Longrightarrow> peers r c i j \<Longrightarrow> p ! i ! j \<noteq> Num v"
    and self: "p ! r ! c \<noteq> Num v" and rc: "r < 9" "c < 9"
  shows "\<not> in_row p r v \<and> \<not> in_col p c v \<and> \<not> in_region p r c v"
proof -
  have key: "p ! i ! j \<noteq> Num v"
    if "i < 9" "j < 9" "i = r \<or> j = c \<or> (i div 3 = r div 3 \<and> j div 3 = c div 3)" for i j
  proof (cases "i = r \<and> j = c")
    case True
    then show ?thesis using self by simp
  next
    case False
    then show ?thesis using free [of i j] that by (auto simp: peers_def)
  qed
  then show ?thesis using rc by (auto simp: in_row_def in_col_def in_region_def)
qed

lemma completion_check:
  assumes wf: "wf_grid p" and rc: "r < 9" "c < 9" and z: "p ! r ! c = Num 0"
    and ext: "extends p q" and wfq: "wf_grid q" and ok: "placed_ok g0 q"
    and e0: "g0 ! r ! c = Num 0" and qv: "q ! r ! c = Num v" and v: "1 \<le> v"
  shows "check p r c v"
proof -
  have nc: "no_clash q r c" using ok e0 qv v rc by (auto simp: placed_ok_def)
  have "p ! i ! j \<noteq> Num v" if ij: "i < 9" "j < 9" and pe: "peers r c i j" for i j
  proof (cases "js_pos (p ! i ! j)")
    case True
    then have "p ! i ! j = q ! i ! j" using ext ij by (simp add: extends_def)
    then show ?thesis using nc ij pe qv by (auto simp: no_clash_def)
  next
    case False
    then show ?thesis using v by auto
  qed
  then have "\<not> in_row p r v \<and> \<not> in_col p c v \<and> \<not> in_region p r c v"
    using z v rc by (intro peers_free_units) auto
  then show ?thesis
    using check_placement_ok [OF wf rc] by (simp add: placement_ok_def)
qed

lemma solve_loc_unfold:
  assumes "\<not> (row = 8 \<and> col = 9)" and "r' = (if col = 9 then row + 1 else row)"
    and "c' = (if col = 9 then 0 else col)" and "r' \<le> 8" and "c' \<le> 8"
  shows "solve_loc p row col = (if js_pos (p ! r' ! c') then solve_loc p r' (c' + 1) else try_nums p r' c' 1)"
proof -
  have "solve_loc p row col =
      (if 8 < r' \<or> 8 < c' then None
       else if js_pos (p ! r' ! c') then solve_loc p r' (c' + 1) else try_nums p r' c' 1)"
    unfolding solve_loc.simps [of p row col] Let_def assms(2,3) [symmetric]
    by (simp only: if_not_P [OF assms(1)])
  then show ?thesis using assms(4,5) by simp
qed

lemma try_nums_unfold:
  assumes "r < 9" and "c < 9" and "n \<le> 9"
  shows "try_nums p r c n =
    (if check p r c (int n) then
       (case solve_loc (set_cell p r c (Num (int n))) r (c + 1) of
          None \<Rightarrow> None
        | Some (True, p') \<Rightarrow> Some (True, p')
        | Some (False, p') \<Rightarrow> try_nums (set_cell p' r c (Num 0)) r c (n + 1))
     else try_nums (set_cell p r c (Num 0)) r c (n + 1))"
  using assms by (simp add: try_nums.simps [of p r c n])

lemma extends_set_cell:
  assumes "extends p q" and "wf_grid p" and "r < 9" and "c < 9" and "q ! r ! c = x"
  shows "extends (set_cell p r c x) q"
  using assms by (auto simp: extends_def)

lemma empties_within_set_cell:
  assumes "empties_within g0 p" and "wf_grid p" and "r < 9" and "c < 9" and "x \<noteq> Num 0"
  shows "empties_within g0 (set_cell p r c x)"
  using assms by (auto simp: empties_within_def)

lemma complete_cell:
  assumes "complete q" and "wf_grid q" and "i < 9" and "j < 9"
  obtains v where "q ! i ! j = Num v" and "1 \<le> v" and "v \<le> 9"
proof (cases "q ! i ! j")
  case (Num k)
  moreover have "js_pos (q ! i ! j)" "cell_ok (q ! i ! j)"
    using assms wf_grid_nth [OF assms(2-4)] by (simp_all add: complete_def)
  ultimately show ?thesis using that by simp
next
  case NaN
  then show ?thesis using assms wf_grid_nth [OF assms(2-4)] by simp
qed

lemma solve_complete:
  shows "wf_grid p \<Longrightarrow> r \<le> 8 \<Longrightarrow> c \<le> 9 \<Longrightarrow> empties_within g0 p \<Longrightarrow> extends p q \<Longrightarrow>
           wf_grid q \<Longrightarrow> complete q \<Longrightarrow> placed_ok g0 q \<Longrightarrow> \<exists>p'. solve_loc p r c = Some (True, p')"
    and "wf_grid p \<Longrightarrow> r \<le> 8 \<Longrightarrow> c \<le> 8 \<Longrightarrow> empties_within g0 p \<Longrightarrow> extends p q \<Longrightarrow>
           wf_grid q \<Longrightarrow> complete q \<Longrightarrow> placed_ok g0 q \<Longrightarrow> p ! r ! c = Num 0 \<Longrightarrow>
           (\<exists>v. q ! r ! c = Num v \<and> int n \<le> v) \<Longrightarrow> 1 \<le> n \<Longrightarrow> \<exists>p'. try_nums p r c n = Some (True, p')"
proof (induction p r c and p r c n rule: solve_loc_try_nums.induct)
  case (1 puzzle row col)
  show ?case
  proof (cases "row = 8 \<and> col = 9")
    case True
    show ?thesis unfolding solve_loc.simps [of puzzle row col] using True by simp
  next
    case nstop: False
    define r' where "r' = (if col = 9 then row + 1 else row)"
    define c' where "c' = (if col = 9 then 0 else col)"
    have b: "r' \<le> 8" "c' \<le> 8" using nstop "1.prems"(2,3) by (auto simp: r'_def c'_def)
    have nb: "\<not> (8 < r' \<or> 8 < c')" using b by simp
    have u: "solve_loc puzzle row col =
        (if js_pos (puzzle ! r' ! c') then solve_loc puzzle r' (c' + 1) else try_nums puzzle r' c' 1)"
      using nstop b by (intro solve_loc_unfold) (simp_all add: r'_def c'_def)
    show ?thesis
    proof (cases "js_pos (puzzle ! r' ! c')")
      case True
      then show ?thesis
        using u "1.IH"(1) [OF nstop r'_def c'_def nb True] "1.prems" b by simp
    next
      case False
      have z: "puzzle ! r' ! c' = Num 0" using False b "1.prems"(1) wf_empty_cell by simp
      have b9: "r' < 9" "c' < 9" using b by simp_all
      obtain v where qv: "q ! r' ! c' = Num v" "1 \<le> v" "v \<le> 9"
        by (rule complete_cell [OF "1.prems"(7,6) b9])
      show ?thesis
        using u False "1.IH"(2) [OF nstop r'_def c'_def nb False] "1.prems" b z qv by auto
    qed
  qed
next
  case (2 puzzle row col num)
  have rc: "row < 9" "col < 9" using "2.prems"(2,3) by simp_all
  have g: "\<not> (8 < row \<or> 8 < col)" using rc by simp
  obtain v where qv: "q ! row ! col = Num v" and nle: "int num \<le> v" using "2.prems"(10) by blast
  have "cell_ok (q ! row ! col)" using wf_grid_nth [OF "2.prems"(6) rc] by simp
  then have v9: "v \<le> 9" using qv by simp
  have nv: "\<not> 9 < num" using v9 nle by linarith
  have e0: "g0 ! row ! col = Num 0"
    using "2.prems"(4,9) rc by (simp add: empties_within_def)
  have u: "try_nums puzzle row col num =
    (if check puzzle row col (int num) then
       (case solve_loc (set_cell puzzle row col (Num (int num))) row (col + 1) of
          None \<Rightarrow> None
        | Some (True, p') \<Rightarrow> Some (True, p')
        | Some (False, p') \<Rightarrow> try_nums (set_cell p' row col (Num 0)) row col (num + 1))
     else try_nums (set_cell puzzle row col (Num 0)) row col (num + 1))"
    using rc nv by (intro try_nums_unfold) simp_all
  have back0: "set_cell puzzle row col (Num 0) = puzzle"
    using set_cell_id "2.prems"(9) by blast
  show ?case
  proof (cases "check puzzle row col (int num)")
    case chk: True
    let ?p1 = "set_cell puzzle row col (Num (int num))"
    have wf1: "wf_grid ?p1" using "2.prems"(1) rc nv by simp
    have em1: "empties_within g0 ?p1"
      using "2.prems"(1,4,11) rc by (intro empties_within_set_cell) simp_all
    show ?thesis
    proof (cases "int num = v")
      case True
      have "extends ?p1 q"
        using "2.prems"(1,5) qv rc True by (intro extends_set_cell) simp_all
      then obtain p' where "solve_loc ?p1 row (col + 1) = Some (True, p')"
        using "2.IH"(1) [OF g nv chk wf1] "2.prems"(2-3,6-8) rc em1 by auto
      then show ?thesis using u chk by simp
    next
      case False
      have "solve_loc ?p1 row (col + 1) \<noteq> None"
        using solve_total(1) [of row "col + 1"] rc by simp
      then obtain b q' where sq: "solve_loc ?p1 row (col + 1) = Some (b, q')" by auto
      show ?thesis
      proof (cases b)
        case True
        then show ?thesis using u chk sq by simp
      next
        case nb: False
        have "q' = ?p1" using solve_restore(1) sq nb wf1 by simp
        then have eq: "set_cell q' row col (Num 0) = puzzle"
          using set_cell_back "2.prems"(1,9) rc by simp
        have "\<exists>p'. try_nums puzzle row col (num + 1) = Some (True, p')"
          using "2.IH"(2) [OF g nv chk sq refl] nb eq "2.prems" False qv nle by simp
        then show ?thesis using u chk sq nb eq by simp
      qed
    qed
  next
    case chk: False
    have "check puzzle row col v"
      using "2.prems"(1,5,6,8,9,11) qv nle rc e0
      by (intro completion_check [of puzzle row col q g0 v]) simp_all
    then have "int num \<noteq> v" using chk by auto
    then have "\<exists>p'. try_nums puzzle row col (num + 1) = Some (True, p')"
      using "2.IH"(3) [OF g nv chk] back0 "2.prems" qv nle by simp
    then show ?thesis using u chk back0 by simp
  qed
qed

section \<open>Properties of the search\<close>

lemma placed_ok_start: "wf_grid g0 \<Longrightarrow> placed_ok g0 g0"
  by (simp add: placed_ok_def)

lemma keeps_start: "keeps g0 g 0 \<Longrightarrow> extends g0 g"
  by (simp add: keeps_def extends_def)

lemma filled_from_start: "filled_from g 0 \<longleftrightarrow> complete g"
  by (simp add: filled_from_def complete_def)

lemma complete_nz:
  assumes "complete g" and "i < 9" and "j < 9"
  shows "g ! i ! j \<noteq> Num 0"
proof
  assume "g ! i ! j = Num 0"
  moreover have "js_pos (g ! i ! j)" using assms by (simp add: complete_def)
  ultimately show False by simp
qed

lemma solution_parts:
  assumes "is_solution g0 q"
  shows "wf_grid q" and "complete q" and "extends g0 q" and "placed_ok g0 q"
  using assms by (simp_all add: is_solution_def placed_ok_def)

lemma solution_placed_ok: "is_solution g0 q \<Longrightarrow> placed_ok g0 q"
  by (simp add: is_solution_def placed_ok_def)

lemma placed_ok_solution:
  assumes wf0: "wf_grid g0" and cons: "givens_consistent g0" and wf: "wf_grid g"
    and cpl: "complete g" and ext: "extends g0 g" and ok: "placed_ok g0 g"
  shows "is_solution g0 g"
proof -
  have "no_clash g i j" if ij: "i < 9" "j < 9" for i j
  proof (cases "g0 ! i ! j = Num 0")
    case True
    then show ?thesis using ok complete_nz [OF cpl ij] ij by (simp add: placed_ok_def)
  next
    case False
    then have pos: "js_pos (g0 ! i ! j)" using wf0 ij wf_empty_cell by blast
    then have gij: "g ! i ! j = g0 ! i ! j" using ext ij by (simp add: extends_def)
    show ?thesis
      unfolding no_clash_def
    proof (intro allI impI)
      fix i' j' assume i'j': "i' < 9" "j' < 9" and pe: "peers i j i' j'"
      show "g ! i' ! j' \<noteq> g ! i ! j"
      proof (cases "g0 ! i' ! j' = Num 0")
        case True
        have "g ! i' ! j' \<noteq> Num 0" using complete_nz [OF cpl i'j'] .
        then have "no_clash g i' j'" using ok True i'j' by (simp add: placed_ok_def)
        moreover have "peers i' j' i j" using pe by (simp add: peers_sym)
        ultimately have "g ! i ! j \<noteq> g ! i' ! j'" using ij unfolding no_clash_def by blast
        then show ?thesis by simp
      next
        case False
        then have "js_pos (g0 ! i' ! j')" using wf0 i'j' wf_empty_cell by blast
        then have "g ! i' ! j' = g0 ! i' ! j'" using ext i'j' by (simp add: extends_def)
        moreover have "no_clash g0 i j" using cons pos ij by (simp add: givens_consistent_def)
        ultimately show ?thesis using gij pe i'j' by (simp add: no_clash_def)
      qed
    qed
  qed
  then show ?thesis using wf cpl ext by (simp add: is_solution_def)
qed

lemma search_sound:
  assumes "wf_grid g0" and "solve_loc g0 0 0 = Some (True, g)"
  shows "wf_grid g \<and> complete g \<and> extends g0 g \<and> placed_ok g0 g"
  using solve_sound(1) [OF assms(2,1) placed_ok_start [OF assms(1)]]
  by (simp add: keeps_start filled_from_start)

text \<open>C6: a successful search returns a well-formed, completely filled grid
  that keeps every given cell and in which every cell it filled differs from all
  of its peers.\<close>

theorem solve_loc_sound:
  assumes "wf_grid g0" and "solve_loc g0 0 0 = Some (True, g)"
  shows "wf_grid g \<and> complete g \<and> extends g0 g \<and> placed_ok g0 g"
  using assms by (rule search_sound)

text \<open>C10: a failed search leaves the grid exactly as it found it: every
  tentative placement is undone on backtracking.\<close>

theorem solve_loc_restores:
  assumes "wf_grid g" and "solve_loc g 0 0 = Some (False, g')"
  shows "g' = g"
  using solve_restore(1) [OF assms(2,1)] .

lemma search_complete:
  assumes "wf_grid g0" and "wf_grid q" and "complete q" and "extends g0 q" and "placed_ok g0 q"
  shows "\<exists>g. solve_loc g0 0 0 = Some (True, g)"
proof -
  have "empties_within g0 g0" by (simp add: empties_within_def)
  then show ?thesis using solve_complete(1) [of g0 0 0 g0 q] assms by simp
qed

text \<open>C7: the search is complete: if the grid has any completion whose filled-in
  cells differ from their peers (in particular, any solution), it succeeds.\<close>

theorem solve_loc_complete:
  assumes "wf_grid g0" and "wf_grid q" and "complete q" and "extends g0 q" and "placed_ok g0 q"
  shows "\<exists>g. solve_loc g0 0 0 = Some (True, g)"
  using assms by (rule search_complete)

lemma search_valid:
  assumes "wf_grid g0" and "givens_consistent g0" and "solve_loc g0 0 0 = Some (True, g)"
  shows "is_solution g0 g"
  using search_sound [OF assms(1,3)] placed_ok_solution [OF assms(1,2)] by blast

text \<open>C8: when the givens do not clash, a successful search returns a
  solution of the puzzle.\<close>

theorem solve_loc_valid:
  assumes "wf_grid g0" and "givens_consistent g0" and "solve_loc g0 0 0 = Some (True, g)"
  shows "is_solution g0 g"
  using assms by (rule search_valid)

text \<open>C11: a puzzle with consistent givens and exactly one solution is solved
  to that solution.\<close>

theorem solve_loc_unique:
  assumes "wf_grid g0" and "givens_consistent g0" and "is_solution g0 q"
    and "\<forall>q'. is_solution g0 q' \<longrightarrow> q' = q"
  shows "solve_loc g0 0 0 = Some (True, q)"
proof -
  obtain g where g: "solve_loc g0 0 0 = Some (True, g)"
    using search_complete [OF assms(1) solution_parts [OF assms(3)]] by blast
  then have "is_solution g0 g" using search_valid [OF assms(1,2)] by blast
  with assms(4) g show ?thesis by simp
qed

lemma solve_filled_grid:
  shows "r \<le> 8 \<Longrightarrow> c \<le> 9 \<Longrightarrow> filled_from g (9 * r + c) \<Longrightarrow> solve_loc g r c = Some (True, g)"
    and "try_nums g r c n = try_nums g r c n"
proof (induction g r c and g r c n rule: solve_loc_try_nums.induct)
  case (1 puzzle row col)
  show ?case
  proof (cases "row = 8 \<and> col = 9")
    case True
    show ?thesis unfolding solve_loc.simps [of puzzle row col] using True by simp
  next
    case nstop: False
    define r' where "r' = (if col = 9 then row + 1 else row)"
    define c' where "c' = (if col = 9 then 0 else col)"
    have b: "r' \<le> 8" "c' \<le> 8" using nstop "1.prems"(1,2) by (auto simp: r'_def c'_def)
    have pos: "9 * r' + c' = 9 * row + col" by (rule solve_loc_pos [OF r'_def c'_def])
    have filled: "js_pos (puzzle ! r' ! c')"
      using "1.prems"(3) b pos by (simp add: filled_from_def)
    have "filled_from puzzle (9 * r' + (c' + 1))"
      using "1.prems"(3) pos by (simp add: filled_from_def)
    then have "solve_loc puzzle r' (c' + 1) = Some (True, puzzle)"
      using "1.IH"(1) [OF nstop r'_def c'_def _ filled] b by simp
    then show ?thesis
      using solve_loc_unfold [OF nstop r'_def c'_def b] filled by simp
  qed
qed simp

text \<open>C23: a grid with every cell filled is returned unchanged as the solution,
  whether or not its cells clash: the search only ever checks the cells it fills.\<close>

theorem solve_loc_complete_grid:
  assumes "complete g"
  shows "solve_loc g 0 0 = Some (True, g)"
  using solve_filled_grid(1) [of 0 0 g] assms by (simp add: filled_from_start)

text \<open>C22: the grid stays well formed through every search, whatever its
  outcome: every assignment of \<^verbatim>\<open>solveLoc\<close> writes \<open>0\<close>..\<open>9\<close> into a cell
  inside the grid.\<close>

theorem solve_loc_preserves_wf:
  assumes "wf_grid p" and "solve_loc p r c = Some (b, p')"
  shows "wf_grid p'"
  using solve_wf(1) [OF assms(2,1)] .

end
