(* ===== verification/Units.thy ===== *)
theory Units
  imports Solver
begin

text \<open>
  An executable form of the solution predicates of \<open>Solver\<close>: a grid's givens
  are consistent exactly when the filled cells of every row, column and 3x3 box
  are pairwise distinct.  The quantifiers of \<open>givens_consistent\<close> range over
  all pairs of cells; \<open>units_ok\<close> looks at 27 lists of nine cells, so that a
  concrete grid is checked by evaluation.
\<close>

section \<open>Units\<close>

definition row_unit :: "grid \<Rightarrow> nat \<Rightarrow> jsnum list" where
  "row_unit g i = g ! i"

definition col_unit :: "grid \<Rightarrow> nat \<Rightarrow> jsnum list" where
  "col_unit g j = map (\<lambda>r. r ! j) g"

definition box_unit :: "grid \<Rightarrow> nat \<Rightarrow> jsnum list" where
  "box_unit g b = map (\<lambda>k. g ! (b div 3 * 3 + k div 3) ! (b mod 3 * 3 + k mod 3)) [0..<9]"

definition distinct_givens :: "jsnum list \<Rightarrow> bool" where
  "distinct_givens xs \<longleftrightarrow> distinct (filter js_pos xs)"

definition units_ok :: "grid \<Rightarrow> bool" where
  "units_ok g \<longleftrightarrow> list_all (\<lambda>k. distinct_givens (row_unit g k) \<and> distinct_givens (col_unit g k)
                                   \<and> distinct_givens (box_unit g k)) [0..<9]"

section \<open>Lemmas\<close>

lemma distinct_filter_nth:
  "distinct (filter P xs) \<longleftrightarrow>
   (\<forall>a<length xs. \<forall>b<length xs. a \<noteq> b \<longrightarrow> P (xs ! a) \<longrightarrow> xs ! a \<noteq> xs ! b)"
proof (induction xs)
  case Nil
  then show ?case by simp
next
  case (Cons x xs)
  have "distinct (filter P (x # xs)) \<longleftrightarrow>
        (P x \<longrightarrow> (\<forall>b<length xs. xs ! b \<noteq> x)) \<and> distinct (filter P xs)"
    by (auto simp: in_set_conv_nth)
  also have "\<dots> \<longleftrightarrow> (\<forall>a<length (x # xs). \<forall>b<length (x # xs). a \<noteq> b \<longrightarrow>
                     P ((x # xs) ! a) \<longrightarrow> (x # xs) ! a \<noteq> (x # xs) ! b)"
    unfolding Cons.IH
    by (auto simp: nth_Cons split: nat.splits) metis+
  finally show ?case .
qed

lemma div3_mod3_eq:
  assumes "(a::nat) < 3" and "b < 3" and "a' < 3" and "b' < 3" and "a * 3 + b = a' * 3 + b'"
  shows "a = a' \<and> b = b'"
proof -
  have "a = (a * 3 + b) div 3" "a' = (a' * 3 + b') div 3" using assms(2,4) by simp_all
  then have "a = a'" using assms(5) by simp
  then show ?thesis using assms(5) by simp
qed

lemma box_unit_nth:
  assumes "i < 9" and "j < 9"
  shows "box_unit g (i div 3 * 3 + j div 3) ! (i mod 3 * 3 + j mod 3) = g ! i ! j"
proof -
  have "j div 3 < 3" using assms(2) by linarith
  then have b: "(i div 3 * 3 + j div 3) div 3 = i div 3" "(i div 3 * 3 + j div 3) mod 3 = j div 3"
    by simp_all
  have "j mod 3 < 3" by simp
  then have k: "(i mod 3 * 3 + j mod 3) div 3 = i mod 3" "(i mod 3 * 3 + j mod 3) mod 3 = j mod 3"
    by simp_all
  have "i mod 3 * 3 + j mod 3 < 9" by linarith
  then show ?thesis
    unfolding box_unit_def using b k by (simp add: mult.commute [of 3])
qed

lemma box_cell:
  assumes "(k::nat) < 9" and "(a::nat) < 9"
  shows "k div 3 * 3 + a div 3 < 9" and "k mod 3 * 3 + a mod 3 < 9"
    and "(k div 3 * 3 + a div 3) div 3 = k div 3" and "(k mod 3 * 3 + a mod 3) div 3 = k mod 3"
    and "(k div 3 * 3 + a div 3) mod 3 = a div 3" and "(k mod 3 * 3 + a mod 3) mod 3 = a mod 3"
proof -
  have "k div 3 < 3" "a div 3 < 3" "k mod 3 < 3" "a mod 3 < 3" using assms by linarith+
  then show "k div 3 * 3 + a div 3 < 9" and "k mod 3 * 3 + a mod 3 < 9"
    and "(k div 3 * 3 + a div 3) div 3 = k div 3" and "(k mod 3 * 3 + a mod 3) div 3 = k mod 3"
    and "(k div 3 * 3 + a div 3) mod 3 = a div 3" and "(k mod 3 * 3 + a mod 3) mod 3 = a mod 3"
    by simp_all
qed

lemma distinct_givens_nth:
  assumes "length xs = 9"
  shows "distinct_givens xs \<longleftrightarrow>
         (\<forall>a<9. \<forall>b<9. a \<noteq> b \<longrightarrow> js_pos (xs ! a) \<longrightarrow> xs ! a \<noteq> xs ! b)"
  using assms by (simp add: distinct_givens_def distinct_filter_nth)

lemma units_length:
  assumes "wf_grid g" and "k < 9"
  shows "length (row_unit g k) = 9" "length (col_unit g k) = 9" "length (box_unit g k) = 9"
  using assms wf_grid_nth [OF assms(1,2), of 0] by (simp_all add: row_unit_def col_unit_def box_unit_def wf_grid_def)

lemma units_ok_nth:
  "units_ok g \<longleftrightarrow> (\<forall>k<9. distinct_givens (row_unit g k) \<and> distinct_givens (col_unit g k)
                         \<and> distinct_givens (box_unit g k))"
  by (simp add: units_ok_def list_all_upt_iff)

lemma distinct_givensD:
  assumes "distinct_givens xs" and "length xs = 9" and "a < 9" and "b < 9" and "a \<noteq> b"
    and "js_pos (xs ! a)"
  shows "xs ! a \<noteq> xs ! b"
  using assms distinct_givens_nth [OF assms(2)] by blast

lemma distinct_givensI:
  assumes "length xs = 9"
    and "\<And>a b. a < 9 \<Longrightarrow> b < 9 \<Longrightarrow> a \<noteq> b \<Longrightarrow> js_pos (xs ! a) \<Longrightarrow> xs ! a \<noteq> xs ! b"
  shows "distinct_givens xs"
  using assms by (simp add: distinct_givens_nth)

lemma box_unit_cell:
  assumes "k < 9" and "a < 9"
  shows "box_unit g k ! a = g ! (k div 3 * 3 + a div 3) ! (k mod 3 * 3 + a mod 3)"
  using assms by (simp add: box_unit_def)

lemma box_index_inj:
  assumes "(i::nat) < 9" "(j::nat) < 9" "(i'::nat) < 9" "(j'::nat) < 9" and "i' div 3 = i div 3" "j' div 3 = j div 3"
    and "i mod 3 * 3 + j mod 3 = i' mod 3 * 3 + j' mod 3"
  shows "i' = i \<and> j' = j"
proof -
  have "i mod 3 = i' mod 3 \<and> j mod 3 = j' mod 3"
    using div3_mod3_eq [OF _ _ _ _ assms(7)] by simp
  then show ?thesis
    using assms(5,6) div_mult_mod_eq [of i 3] div_mult_mod_eq [of i' 3]
      div_mult_mod_eq [of j 3] div_mult_mod_eq [of j' 3] by metis
qed

lemma units_ok_consistent:
  assumes wf: "wf_grid g" and u: "units_ok g"
  shows "givens_consistent g"
  unfolding givens_consistent_def no_clash_def
proof (intro allI impI)
  fix i j i' j'
  assume i: "i < 9" and j: "j < 9" and pos: "js_pos (g ! i ! j)"
    and i': "i' < 9" and j': "j' < 9" and pr: "peers i j i' j'"
  define b where "b = i div 3 * 3 + j div 3"
  have b9: "b < 9" unfolding b_def by (rule box_cell(1) [OF i j])
  have r: "distinct_givens (row_unit g i)" and c: "distinct_givens (col_unit g j)"
    and x: "distinct_givens (box_unit g b)"
    using u i j b9 by (simp_all add: units_ok_nth)
  have lg: "length g = 9" using wf by (simp add: wf_grid_def)
  have ne: "(i', j') \<noteq> (i, j)" using pr by (simp add: peers_def)
  consider "i' = i" | "j' = j" | "i' div 3 = i div 3" "j' div 3 = j div 3"
    using pr by (auto simp: peers_def)
  then show "g ! i' ! j' \<noteq> g ! i ! j"
  proof cases
    case 1
    then show ?thesis
      using distinct_givensD [OF r units_length(1) [OF wf i] j j', of] ne pos
      by (auto simp: row_unit_def)
  next
    case 2
    then show ?thesis
      using distinct_givensD [OF c units_length(2) [OF wf j] i i'] ne pos lg i i'
      by (auto simp: col_unit_def)
  next
    case 3
    have b': "b = i' div 3 * 3 + j' div 3" using 3 by (simp add: b_def)
    have e: "box_unit g b ! (i mod 3 * 3 + j mod 3) = g ! i ! j"
      unfolding b_def by (rule box_unit_nth [OF i j])
    have e': "box_unit g b ! (i' mod 3 * 3 + j' mod 3) = g ! i' ! j'"
      unfolding b' by (rule box_unit_nth [OF i' j'])
    have "i mod 3 * 3 + j mod 3 \<noteq> i' mod 3 * 3 + j' mod 3"
      using box_index_inj [OF i j i' j' 3] ne by auto
    then show ?thesis
      using distinct_givensD [OF x units_length(3) [OF wf b9] box_cell(2) [OF i j] box_cell(2) [OF i' j']]
        e e' pos by auto
  qed
qed

lemma consistent_units_ok:
  assumes wf: "wf_grid g" and gc: "givens_consistent g"
  shows "units_ok g"
  unfolding units_ok_nth
proof (intro allI impI conjI)
  fix k :: nat assume k: "k < 9"
  have nc: "\<And>i j i' j'. i < 9 \<Longrightarrow> j < 9 \<Longrightarrow> i' < 9 \<Longrightarrow> j' < 9 \<Longrightarrow> js_pos (g ! i ! j) \<Longrightarrow>
              peers i j i' j' \<Longrightarrow> g ! i ! j \<noteq> g ! i' ! j'"
    using gc by (fastforce simp: givens_consistent_def no_clash_def)
  have lg: "length g = 9" using wf by (simp add: wf_grid_def)
  show "distinct_givens (row_unit g k)"
  proof (rule distinct_givensI [OF units_length(1) [OF wf k]])
    fix a b assume "a < 9" "b < 9" "a \<noteq> b" "js_pos (row_unit g k ! a)"
    then show "row_unit g k ! a \<noteq> row_unit g k ! b"
      using nc [of k a k b] k by (simp add: row_unit_def peers_def)
  qed
  show "distinct_givens (col_unit g k)"
  proof (rule distinct_givensI [OF units_length(2) [OF wf k]])
    fix a b assume "a < 9" "b < 9" "a \<noteq> b" "js_pos (col_unit g k ! a)"
    then show "col_unit g k ! a \<noteq> col_unit g k ! b"
      using nc [of a k b k] k lg by (simp add: col_unit_def peers_def)
  qed
  show "distinct_givens (box_unit g k)"
  proof (rule distinct_givensI [OF units_length(3) [OF wf k]])
    fix a b assume a: "a < 9" and b: "b < 9" and ab: "a \<noteq> b"
      and pos: "js_pos (box_unit g k ! a)"
    have "(k mod 3 * 3 + a mod 3, k div 3 * 3 + a div 3) \<noteq> (k mod 3 * 3 + b mod 3, k div 3 * 3 + b div 3)"
    proof
      assume "(k mod 3 * 3 + a mod 3, k div 3 * 3 + a div 3) = (k mod 3 * 3 + b mod 3, k div 3 * 3 + b div 3)"
      then have "a mod 3 = b mod 3" "a div 3 = b div 3" by simp_all
      then have "a = b" by (metis div_mult_mod_eq)
      with ab show False ..
    qed
    then have "peers (k div 3 * 3 + a div 3) (k mod 3 * 3 + a mod 3)
                     (k div 3 * 3 + b div 3) (k mod 3 * 3 + b mod 3)"
      using box_cell(3,4) [OF k a] box_cell(3,4) [OF k b] by (auto simp: peers_def)
    then show "box_unit g k ! a \<noteq> box_unit g k ! b"
      using nc [OF box_cell(1,2) [OF k a] box_cell(1,2) [OF k b]] pos
      by (simp add: box_unit_cell k a b)
  qed
qed

text \<open>The cell quantifier of the solution predicates as a scan of the grid, the
  form in which a concrete grid is checked by evaluation.\<close>

lemma grid_all_iff:
  "(\<forall>i<9. \<forall>j<9. P i j) \<longleftrightarrow> list_all (\<lambda>i. list_all (\<lambda>j. P i j) [0..<9]) [0..<9]"
  by (simp add: list_all_upt_iff)

lemma in_units_code:
  "in_row g r v \<longleftrightarrow> list_ex (\<lambda>j. g ! r ! j = Num v) [0..<9]"
  "in_col g c v \<longleftrightarrow> list_ex (\<lambda>i. g ! i ! c = Num v) [0..<9]"
  "in_region g r c v \<longleftrightarrow>
     list_ex (\<lambda>i. list_ex (\<lambda>j. i div 3 = r div 3 \<and> j div 3 = c div 3 \<and> g ! i ! j = Num v) [0..<9]) [0..<9]"
  by (simp_all add: in_row_def in_col_def in_region_def list_ex_iff Bex_def) blast

section \<open>The executable check is the specification\<close>

text \<open>On a well-formed grid, the givens are consistent in the sense of the
  spec (no filled cell has the value of a peer) exactly when the filled cells of
  each row, column and box are pairwise distinct.\<close>

lemma units_ok_iff:
  assumes "wf_grid g"
  shows "units_ok g \<longleftrightarrow> givens_consistent g"
  using units_ok_consistent [OF assms] consistent_units_ok [OF assms] by blast

end
