(* ===== verification/Search_Order.thy ===== *)
theory Search_Order
  imports Solver
begin

text \<open>
  The order in which \<^verbatim>\<open>solveLoc\<close> (\<^verbatim>\<open>src/controllers/sudoku-solver.js\<close>,
  lines 105--120) explores completions: cells in row-major order, candidates
  \<open>1\<close>..\<open>9\<close> in ascending order.  The spec (section 4.4) promises that a puzzle
  with several solutions yields the lexicographically first one.  This theory
  proves it: the grid a successful search returns comes, in the row-major
  lexicographic order \<open>lex_le\<close>, before every completion of the puzzle whose
  filled-in cells obey the rules.
\<close>

section \<open>Row-major lexicographic order on grids\<close>

definition lex_le :: "grid \<Rightarrow> grid \<Rightarrow> bool" where
  "lex_le g q \<longleftrightarrow> g = q \<or>
     (\<exists>i<9. \<exists>j<9. (\<forall>i'<9. \<forall>j'<9. 9 * i' + j' < 9 * i + j \<longrightarrow> g ! i' ! j' = q ! i' ! j')
                 \<and> (\<exists>a b. g ! i ! j = Num a \<and> q ! i ! j = Num b \<and> a < b))"

definition filled_before :: "grid \<Rightarrow> nat \<Rightarrow> bool" where
  "filled_before p k \<longleftrightarrow> (\<forall>i<9. \<forall>j<9. 9 * i + j < k \<longrightarrow> js_pos (p ! i ! j))"

section \<open>Lemmas\<close>

lemma filled_before_step:
  assumes "filled_before p (9 * r + c)" and "js_pos (p ! r ! c)" and "r < 9" and "c < 9"
  shows "filled_before p (9 * r + (c + 1))"
  unfolding filled_before_def
proof (intro allI impI)
  fix i j assume ij: "i < 9" "j < 9" and lt: "9 * i + j < 9 * r + (c + 1)"
  show "js_pos (p ! i ! j)"
  proof (cases "9 * i + j = 9 * r + c")
    case True
    then show ?thesis using assms(2-4) ij pos_eq_iff by simp
  next
    case False
    then show ?thesis using assms(1) ij lt by (simp add: filled_before_def)
  qed
qed

lemma filled_before_set_cell:
  assumes "filled_before p (9 * r + c)" and "wf_grid p" and "r < 9" and "c < 9" and "0 < v"
  shows "filled_before (set_cell p r c (Num v)) (9 * r + (c + 1))"
proof (rule filled_before_step)
  show "filled_before (set_cell p r c (Num v)) (9 * r + c)"
    using assms pos_eq_iff by (auto simp: filled_before_def)
qed (use assms in simp_all)

lemma filled_before_all:
  assumes "filled_before p (9 * 8 + 9)" and "wf_grid p" and "wf_grid q" and "extends p q"
  shows "q = p"
proof (rule grid_eqI [OF assms(3,2)])
  fix i j :: nat assume "i < 9" "j < 9"
  moreover have "9 * i + j < 9 * 8 + 9" using calculation by linarith
  ultimately show "q ! i ! j = p ! i ! j"
    using assms(1,4) by (simp add: filled_before_def extends_def)
qed

lemma search_first:
  shows "solve_loc p r c = Some (True, g) \<Longrightarrow> wf_grid p \<Longrightarrow> placed_ok g0 p \<Longrightarrow>
           empties_within g0 p \<Longrightarrow> r \<le> 8 \<Longrightarrow> c \<le> 9 \<Longrightarrow> filled_before p (9 * r + c) \<Longrightarrow>
           wf_grid q \<Longrightarrow> complete q \<Longrightarrow> extends p q \<Longrightarrow> placed_ok g0 q \<Longrightarrow> lex_le g q"
    and "try_nums p r c n = Some (True, g) \<Longrightarrow> wf_grid p \<Longrightarrow> placed_ok g0 p \<Longrightarrow>
           empties_within g0 p \<Longrightarrow> r < 9 \<Longrightarrow> c < 9 \<Longrightarrow> filled_before p (9 * r + c) \<Longrightarrow>
           p ! r ! c = Num 0 \<Longrightarrow> 1 \<le> n \<Longrightarrow>
           wf_grid q \<Longrightarrow> complete q \<Longrightarrow> extends p q \<Longrightarrow> placed_ok g0 q \<Longrightarrow>
           (\<exists>v. q ! r ! c = Num v \<and> int n \<le> v) \<Longrightarrow> lex_le g q"
proof (induction p r c and p r c n arbitrary: g and g rule: solve_loc_try_nums.induct)
  case (1 puzzle row col)
  from "1.prems"(1) show ?case
  proof (cases rule: solve_loc_SomeE)
    case stop
    have "q = puzzle"
      using filled_before_all "1.prems"(2,7,8,10) stop(1,2) by simp
    then show ?thesis using stop(3) by (simp add: lex_le_def)
  next
    case (filled r' c')
    have pos: "9 * r' + c' = 9 * row + col" using filled(2,3) by (rule solve_loc_pos)
    have nb: "\<not> (8 < r' \<or> 8 < c')" using filled(4,5) by simp
    have fb: "filled_before puzzle (9 * r' + (c' + 1))"
      using "1.prems"(7) pos filled(4-6) by (intro filled_before_step) simp_all
    show ?thesis
      using "1.IH"(1) [OF filled(1,2,3) nb filled(6,7) "1.prems"(2-4)] filled(4,5) fb
        "1.prems"(8-11) by simp
  next
    case (empty r' c')
    have pos: "9 * r' + c' = 9 * row + col" using empty(2,3) by (rule solve_loc_pos)
    have nb: "\<not> (8 < r' \<or> 8 < c')" using empty(4,5) by simp
    have b9: "r' < 9" "c' < 9" using empty(4,5) by simp_all
    have z: "puzzle ! r' ! c' = Num 0" using empty(4-6) "1.prems"(2) wf_empty_cell by simp
    obtain v where qv: "q ! r' ! c' = Num v" "1 \<le> v" "v \<le> 9"
      by (rule complete_cell [OF "1.prems"(9,8) b9])
    show ?thesis
      using "1.IH"(2) [OF empty(1,2,3) nb empty(6,7) "1.prems"(2-4) b9] pos z qv
        "1.prems"(7-11) by simp
  qed
next
  case (2 puzzle row col num)
  obtain v where qv: "q ! row ! col = Num v" and nle: "int num \<le> v" using "2.prems"(14) by blast
  have e0: "g0 ! row ! col = Num 0"
    using "2.prems"(4,5,6,8) by (simp add: empties_within_def)
  from "2.prems"(1) show ?case
  proof (cases rule: try_nums_SomeE)
    case (found g')
    let ?p1 = "set_cell puzzle row col (Num (int num))"
    have g: "\<not> (8 < row \<or> 8 < col)" "\<not> 9 < num" using found(1-3) by simp_all
    have pl: "placement_ok puzzle row col (int num)"
      using found(1,2,4) "2.prems"(2) check_placement_ok by blast
    have wf1: "wf_grid ?p1" using found(1-3) "2.prems"(2) by simp
    have ok1: "placed_ok g0 ?p1"
      using found(1,2) "2.prems"(2,3,8,9) by (intro placed_ok_place [OF _ _ _ _ _ _ pl]) simp_all
    have em1: "empties_within g0 ?p1"
      using "2.prems"(2,4,9) found(1,2) by (intro empties_within_set_cell) simp_all
    have fb1: "filled_before ?p1 (9 * row + (col + 1))"
      using "2.prems"(2,7,9) found(1,2) by (intro filled_before_set_cell) simp_all
    show ?thesis
    proof (cases "v = int num")
      case True
      have "extends ?p1 q"
        using "2.prems"(2,12) qv found(1,2) True by (intro extends_set_cell) simp_all
      then show ?thesis
        using "2.IH"(1) [OF g found(4,5) wf1 ok1 em1] found(1,2,6) fb1 "2.prems"(10,11,13) by simp
    next
      case False
      have snd: "keeps ?p1 g' (9 * row + (col + 1))"
        using solve_sound(1) [OF found(5) wf1 ok1] by simp
      have grc: "g' ! row ! col = Num (int num)"
        using snd found(1,2) "2.prems"(2) by (simp add: keeps_def)
      have agree: "g' ! i' ! j' = q ! i' ! j'"
        if ij: "i' < 9" "j' < 9" and lt: "9 * i' + j' < 9 * row + col" for i' j'
      proof -
        have ne: "\<not> (i' = row \<and> j' = col)" using lt by auto
        have "g' ! i' ! j' = ?p1 ! i' ! j'" using snd ij lt by (simp add: keeps_def)
        also have "\<dots> = puzzle ! i' ! j'" using ne ij "2.prems"(2) found(1,2) by auto
        also have "\<dots> = q ! i' ! j'"
          using "2.prems"(7,12) ij lt by (simp add: filled_before_def extends_def)
        finally show ?thesis .
      qed
      have "int num < v" using False nle by simp
      then show ?thesis
        unfolding lex_le_def using found(1,2,6) agree grc qv by blast
    qed
  next
    case (retry q')
    have g: "\<not> (8 < row \<or> 8 < col)" "\<not> 9 < num" using retry(1-3) by simp_all
    let ?p1 = "set_cell puzzle row col (Num (int num))"
    have "q' = ?p1" using solve_restore(1) retry(5) "2.prems"(2) retry(1-3) by simp
    then have eq: "set_cell q' row col (Num 0) = puzzle"
      using set_cell_back "2.prems"(2,8) retry(1) by simp
    have "v \<noteq> int num"
    proof
      assume vn: "v = int num"
      have "extends ?p1 q"
        using "2.prems"(2,12) qv retry(1,2) vn by (intro extends_set_cell) simp_all
      moreover have "wf_grid ?p1" using retry(1-3) "2.prems"(2) by simp
      moreover have "empties_within g0 ?p1"
        using "2.prems"(2,4,9) retry(1,2) by (intro empties_within_set_cell) simp_all
      ultimately have "\<exists>p'. solve_loc ?p1 row (col + 1) = Some (True, p')"
        using solve_complete(1) [of ?p1 row "col + 1" g0 q] retry(1,2) "2.prems"(10,11,13) by simp
      then show False using retry(5) by simp
    qed
    then have "int (num + 1) \<le> v" using nle by simp
    then show ?thesis
      using "2.IH"(2) [OF g retry(4,5) refl refl] eq retry(6) "2.prems"(2-8,10-13) qv by simp
  next
    case skip
    have g: "\<not> (8 < row \<or> 8 < col)" "\<not> 9 < num" using skip(1-3) by simp_all
    have eq: "set_cell puzzle row col (Num 0) = puzzle"
      using set_cell_id "2.prems"(8) by blast
    have "1 \<le> v" using nle "2.prems"(9) by simp
    then have "check puzzle row col v"
      using "2.prems"(2,5,6,8,10,12,13) qv e0
      by (intro completion_check [of puzzle row col q g0 v]) simp_all
    then have "v \<noteq> int num" using skip(4) by auto
    then have "int (num + 1) \<le> v" using nle by simp
    then show ?thesis
      using "2.IH"(3) [OF g skip(4)] eq skip(5) "2.prems"(2-8,10-13) qv by simp
  qed simp
qed

lemma search_lex_first:
  assumes "wf_grid g0" and "solve_loc g0 0 0 = Some (True, g)"
    and "wf_grid q" and "complete q" and "extends g0 q" and "placed_ok g0 q"
  shows "lex_le g q"
proof -
  have "empties_within g0 g0" by (simp add: empties_within_def)
  moreover have "filled_before g0 (9 * 0 + 0)" by (simp add: filled_before_def)
  ultimately show ?thesis
    using search_first(1) [OF assms(2,1) placed_ok_start [OF assms(1)]] assms(3-6) by simp
qed

section \<open>The search returns the first completion\<close>

text \<open>C9: a successful search returns a grid that comes, in row-major
  lexicographic order, before every completion of the puzzle whose filled-in
  cells obey the rules: candidates are tried in ascending order and cells in
  row-major order.\<close>

theorem solve_loc_lex_first:
  assumes "wf_grid g0" and "solve_loc g0 0 0 = Some (True, g)"
    and "wf_grid q" and "complete q" and "extends g0 q" and "placed_ok g0 q"
  shows "lex_le g q"
  using assms by (rule search_lex_first)

end
