(* ===== verification/Spec2Isabelle.thy ===== *)
theory Spec2Isabelle
  imports Units Search_Order
begin

text \<open>
  \<^bold>\<open>A verification of the Sudoku core of fcc-sudoku.\<close>

  The program is the class \<^verbatim>\<open>SudokuSolver\<close> of
  \<^verbatim>\<open>src/controllers/sudoku-solver.js\<close> with its two helpers.  Its parts, leaves
  first, and the theories that model them:

  \<^item> \<^emph>\<open>JavaScript runtime\<close> (theory \<open>Prelude\<close>).  The numbers the code
    handles are integers or \<open>NaN\<close> (\<open>jsnum\<close>); \<^verbatim>\<open>===\<close>, \<^verbatim>\<open>> 0\<close>, array reads
    that may be \<^verbatim>\<open>undefined\<close> (\<open>None\<close>), \<^verbatim>\<open>parseInt\<close>, \<^verbatim>\<open>isNaN\<close>,
    \<^verbatim>\<open>toLowerCase\<close>, \<^verbatim>\<open>indexOf\<close> and \<^verbatim>\<open>toString\<close> are HOL functions on the
    one-character strings the code applies them to.  Strings are \<open>char\<close> lists
    (code units below 256).
  \<^item> \<^emph>\<open>GridCodec\<close> (theory \<open>Grid_Codec\<close>): \<open>build_puzzle\<close> is
    \<^verbatim>\<open>buildPuzzle\<close> (lines 1--17) and \<open>build_puzzle_string\<close> is
    \<^verbatim>\<open>buildPuzzleString\<close> (lines 19--31).  A grid is a list of nine rows of nine
    \<open>jsnum\<close>s; \<open>wf_grid\<close> says it is 9x9 with cells \<open>0\<close>..\<open>9\<close>.
    The round trips are C14 and C15.
  \<^item> \<^emph>\<open>Validator\<close> (theory \<open>Validator\<close>): \<open>validate\<close> is
    \<^verbatim>\<open>validate\<close> (lines 34--40), with the regular expression's character class as
    \<open>regex_char\<close>; \<open>parse_coord\<close> and \<open>parse_value\<close> are the coordinate and
    value guards of \<^verbatim>\<open>checkStr\<close> (lines 80--85).  The error objects are the
    datatype \<open>error\<close> with their verbatim messages.  Claims C16--C19.
  \<^item> \<^emph>\<open>PlacementChecker\<close> (theory \<open>Placement\<close>):
    \<open>check_row_placement\<close>, \<open>check_col_placement\<close> and
    \<open>check_region_placement\<close> are the three scans (lines 42--69), \<open>check\<close> is
    the solver's test (lines 71--74) and \<open>check_str\<close> the public check operation
    \<^verbatim>\<open>checkStr\<close> (lines 76--96), every early return a branch of its
    \<open>error + check_outcome\<close> result.  C12 shows that \<open>check\<close> refines the
    abstract \<open>placement_ok\<close>; C13 gives the result of \<open>check_str\<close> on valid
    input (its witness evaluates the conflict examples of the spec's section 8);
    C26 and C27 its behaviour on the \<open>NaN\<close> operands that white space lets
    through; C20 its errors in the order of the spec, C21 the self-match of
    line 86.
  \<^item> \<^emph>\<open>Solver\<close> (theory \<open>Solver\<close>): \<^verbatim>\<open>solveLoc\<close> (lines 105--120)
    mutates its grid in place and returns a boolean.  It is modelled by explicit
    state passing: \<open>solve_loc\<close> (the body up to the loop) and \<open>try_nums\<close> (the
    loop over \<open>num\<close>) are mutually recursive, take the grid and return the
    boolean with the grid as it stands after the call, \<open>set_cell\<close> being the
    assignment \<^verbatim>\<open>puzzle[row][col] = v\<close>.  A read outside the grid, where
    JavaScript would throw a \<open>TypeError\<close>, is the value \<open>None\<close>; the grid stays
    well formed (C22).  The model is faithful on 9x9 grids, the only ones
    \<open>solve\<close> builds: on other grids JavaScript throws on a missing row or
    cell, which the model does not reproduce.  \<open>solve\<close> is
    \<^verbatim>\<open>solve\<close> (lines 97--103).  The recursion terminates by the measure
    \<open>82 - (9 * row + col)\<close>, then \<open>10 - num\<close>; no fuel is needed.
  \<^item> \<^emph>\<open>Solution predicates\<close> (theories \<open>Solver\<close> and \<open>Units\<close>): the spec's
    notion of a solution, \<open>is_solution\<close>, stated with peers of a cell, and
    \<open>givens_consistent\<close>; \<open>units_ok\<close> is the executable form of the latter by
    rows, columns and boxes (lemma \<open>units_ok_iff\<close>), the form in which concrete
    grids are checked.
  \<^item> \<^emph>\<open>Search order\<close> (theory \<open>Search_Order\<close>): \<open>lex_le\<close> is the
    row-major lexicographic order on grids; the grid a successful search returns
    comes before every completion of the puzzle whose filled-in cells obey the
    rules (C9), so \<^verbatim>\<open>solve\<close> returns the lexicographically first solution
    (C4), as the spec's section 4.4 promises; the witnesses run both on a puzzle
    with two solutions.

  \<^bold>\<open>What is proved.\<close>  \<open>solve\<close> never throws (C5).  The search is
  sound (C6: the filled-in cells obey the rules and the givens are kept; C8: with
  consistent givens the result is a solution), complete (C7: it finds a solution
  whenever one exists, so it fails only on unsolvable puzzles), returns the
  lexicographically first completion (C9), solves a puzzle with a unique solution
  to it (C11), and on failure leaves the grid as it found it (C10).  End to end,
  for a puzzle of digits and dots, \<open>solve\<close> returns the encoding of a solution
  when the givens are consistent (C1), returns a string for every solvable puzzle
  (C2), answers a puzzle with a unique solution with that solution (C3) and one
  with several solutions with the first of them (C4).  The witnesses evaluate
  the model by \<open>code_simp\<close> on the spec's example puzzle, on its solution with
  the first cell emptied, on the solution with a swappable rectangle of four cells
  emptied (a puzzle with two solutions), on a puzzle whose first cell has no
  candidate, and on a string of 81 ones; solution predicates of concrete grids
  are evaluated through their scans \<open>units_ok\<close> and \<open>grid_all_iff\<close>.

  \<^bold>\<open>Findings.\<close>  The character class \<^verbatim>\<open>[0-9\\.]\<close> admits a backslash,
  which decodes to \<open>NaN\<close> and breaks the solver (C25).  A grid that is already
  full is returned as its own solution even when its digits clash (C23, C24),
  where the spec promises \<^verbatim>\<open>Unsolvable\<close>.  \<open>0\<close> is read as an empty cell and
  written back as \<open>.\<close> (C15).  A white-space value or column character passes
  the \<^verbatim>\<open>isNaN\<close> guards of \<^verbatim>\<open>checkStr\<close> (C26, C27).

  \<^bold>\<open>Not modelled.\<close>  The HTTP transport (the routes and the server) is not
  part of the repository's sources and is out of the spec's scope.  The test
  suites under \<^verbatim>\<open>src/tests\<close> are not modelled as code; their example
  puzzles are the concrete puzzles of this theory.  Request fields that are not
  strings, and characters above code 255, are outside the model: every field is a
  \<open>string option\<close>.
\<close>

section \<open>Concrete puzzles\<close>

text \<open>The example puzzle of the spec and of the tests, its solution, the
  solution with its first cell emptied, a string of 81 ones, a puzzle whose first
  cell has no candidate (the rest of its row holds 1..8 and the cell below holds 9),
  and the solution with its first cell replaced by a backslash.\<close>

definition example_puzzle :: string where
  "example_puzzle = ''1.5..2.84..63.12.7.2..5.....9..1....8.2.3674.3.7.2..9.47...8..1..16....926914.37.''"

definition example_solution :: string where
  "example_solution = ''135762984946381257728459613694517832812936745357824196473298561581673429269145378''"

definition one_blank :: string where
  "one_blank = CHR ''.'' # tl example_solution"

definition all_ones :: string where
  "all_ones = replicate 81 (CHR ''1'')"

definition blocked_puzzle :: string where
  "blocked_puzzle = ''.12345678'' @ ''9'' @ replicate 71 (CHR ''.'')"

definition backslash_puzzle :: string where
  "backslash_puzzle = CHR 0x5C # tl example_solution"

text \<open>The solution with the rectangle of cells A1, A3, H1, H3 emptied: the
  values \<open>1, 5 / 5, 1\<close> there can be swapped, so the puzzle has exactly the two
  solutions \<open>example_solution\<close> and \<open>other_solution\<close>.\<close>

definition two_solutions :: string where
  "two_solutions = ''.3.762984946381257728459613694517832812936745357824196473298561.8.673429269145378''"

definition other_solution :: string where
  "other_solution = ''531762984946381257728459613694517832812936745357824196473298561185673429269145378''"

section \<open>Lemmas on whole puzzles\<close>

definition nz_digit :: "char \<Rightarrow> bool" where
  "nz_digit c \<longleftrightarrow> c \<in> set ''123456789''"

lemma nz_digit_cell:
  assumes "nz_digit c"
  shows "puzzle_char c" and "c \<noteq> CHR ''0''" and "js_pos (read_cell (Some c))"
  using assms by (auto simp: nz_digit_def puzzle_char_def is_digit_def parse_int_char_def digit_val_def)

lemma digits_puzzle:
  assumes "length s = 81" and "list_all nz_digit s"
  shows "list_all puzzle_char s" and "complete (build_puzzle s)" and "wf_grid (build_puzzle s)"
    and "build_puzzle_string (build_puzzle s) = s"
proof -
  show pc: "list_all puzzle_char s" using assms(2) nz_digit_cell(1) by (simp add: list_all_iff)
  show "wf_grid (build_puzzle s)" by (rule build_puzzle_wf [OF assms(1) pc])
  have k: "\<And>k. k < 81 \<Longrightarrow> nz_digit (s ! k)" using assms by (simp add: list_all_length)
  have "\<And>i j::nat. i < 9 \<Longrightarrow> j < 9 \<Longrightarrow> 9 * i + j < 81" by linarith
  then show "complete (build_puzzle s)"
    using k assms(1) nz_digit_cell(3) by (simp add: complete_def js_char_at_def)
  have "map (\<lambda>c. if c = CHR ''0'' then CHR ''.'' else c) s = s"
    using assms(2) nz_digit_cell(2) by (intro map_idI) (auto simp: list_all_iff)
  then show "build_puzzle_string (build_puzzle s) = s"
    using build_puzzle_string_decode [OF assms(1) pc] by simp
qed

lemma validate_puzzle:
  "length s = 81 \<Longrightarrow> list_all puzzle_char s \<Longrightarrow> validate (Some s) = None"
  by (auto simp: validate_None_iff list_all_iff puzzle_char_regex_char)

lemma solve_valid_input:
  "validate (Some s) = None \<Longrightarrow>
   solve (Some s) = (case solve_loc (build_puzzle s) 0 0 of
       None \<Rightarrow> Inl Thrown
     | Some (False, _) \<Rightarrow> Inl (Rejected CannotBeSolved)
     | Some (True, g) \<Rightarrow> Inr (build_puzzle_string g))"
  by (simp add: solve_def)

lemma consistent_complete_solution:
  assumes "wf_grid g" and "complete g" and "givens_consistent g"
  shows "is_solution g g"
  using assms by (auto simp: is_solution_def extends_def complete_def givens_consistent_def)

lemma complete_solution_eq:
  assumes "wf_grid g0" and "complete g0" and "is_solution g0 q"
  shows "q = g0"
proof (rule grid_eqI)
  show "wf_grid q" using assms(3) by (simp add: is_solution_def)
  show "wf_grid g0" by (rule assms(1))
  fix i j :: nat assume "i < 9" "j < 9"
  then show "q ! i ! j = g0 ! i ! j"
    using assms(2,3) by (simp add: is_solution_def extends_def complete_def)
qed

section \<open>The concrete puzzles evaluated\<close>

lemma example_solution_digits: "length example_solution = 81 \<and> list_all nz_digit example_solution"
  unfolding example_solution_def nz_digit_def by simp

lemma example_puzzle_chars: "length example_puzzle = 81 \<and> list_all puzzle_char example_puzzle"
  unfolding example_puzzle_def puzzle_char_def is_digit_def by simp

lemma one_blank_chars: "length one_blank = 81 \<and> list_all puzzle_char one_blank"
  unfolding one_blank_def example_solution_def puzzle_char_def is_digit_def by simp

lemma blocked_chars: "length blocked_puzzle = 81 \<and> list_all puzzle_char blocked_puzzle"
  unfolding blocked_puzzle_def puzzle_char_def is_digit_def by (simp add: list_all_iff)

lemma all_ones_digits: "length all_ones = 81 \<and> list_all nz_digit all_ones"
  unfolding all_ones_def nz_digit_def by (simp add: list_all_iff)

lemma example_solution_units: "units_ok (build_puzzle example_solution)"
  unfolding example_solution_def by code_simp

lemma one_blank_units: "units_ok (build_puzzle one_blank)"
  unfolding one_blank_def example_solution_def by code_simp

lemma one_blank_extends: "extends (build_puzzle one_blank) (build_puzzle example_solution)"
  unfolding extends_def grid_all_iff one_blank_def example_solution_def by code_simp

text \<open>The search on the puzzle with one blank tries \<open>1\<close> at the first cell
  and succeeds; on the blocked puzzle it tries \<open>1\<close>..\<open>9\<close> at the first cell,
  all rejected, and fails.\<close>

lemma one_blank_search:
  "solve_loc (build_puzzle one_blank) 0 0 = Some (True, build_puzzle example_solution)"
  unfolding one_blank_def example_solution_def by code_simp

lemma blocked_search:
  "solve_loc (build_puzzle blocked_puzzle) 0 0 = Some (False, build_puzzle blocked_puzzle)"
  unfolding blocked_puzzle_def by code_simp

lemma two_solutions_search:
  "solve_loc (build_puzzle two_solutions) 0 0 = Some (True, build_puzzle example_solution)"
  unfolding two_solutions_def example_solution_def by code_simp

lemma two_solutions_chars:
  "length two_solutions = 81 \<and> list_all puzzle_char two_solutions"
  "length other_solution = 81 \<and> list_all nz_digit other_solution"
  unfolding two_solutions_def other_solution_def puzzle_char_def is_digit_def nz_digit_def by simp_all

lemma two_solutions_units:
  "units_ok (build_puzzle other_solution)" "units_ok (build_puzzle two_solutions)"
  unfolding other_solution_def two_solutions_def by code_simp+

lemma two_solutions_extends:
  "extends (build_puzzle two_solutions) (build_puzzle example_solution)"
  "extends (build_puzzle two_solutions) (build_puzzle other_solution)"
  unfolding extends_def grid_all_iff two_solutions_def example_solution_def other_solution_def
  by code_simp+

lemma backslash_solve: "solve (Some backslash_puzzle) = Inl (Rejected CannotBeSolved)"
  unfolding backslash_puzzle_def example_solution_def by code_simp

lemma coords_evaluated:
  "parse_coord ''A2'' = Inr (0, Num (int 1))" "parse_coord ''A '' = Inr (0, NaN)"
  "parse_coord ''I9'' = Inr (8, Num 8)"
  "parse_value ''3'' = Inr (Num 3)" "parse_value ''1'' = Inr (Num 1)" "parse_value '' '' = Inr NaN"
  by code_simp+

lemma example_solution_solution:
  "wf_grid (build_puzzle example_solution)" "complete (build_puzzle example_solution)"
  "givens_consistent (build_puzzle example_solution)"
  "is_solution (build_puzzle example_solution) (build_puzzle example_solution)"
proof -
  note d = digits_puzzle [OF example_solution_digits [THEN conjunct1] example_solution_digits [THEN conjunct2]]
  show w: "wf_grid (build_puzzle example_solution)" by (rule d(3))
  show c: "complete (build_puzzle example_solution)" by (rule d(2))
  show g: "givens_consistent (build_puzzle example_solution)"
    by (rule units_ok_consistent [OF w example_solution_units])
  show "is_solution (build_puzzle example_solution) (build_puzzle example_solution)"
    by (rule consistent_complete_solution [OF w c g])
qed

lemma one_blank_solution:
  "wf_grid (build_puzzle one_blank)" "givens_consistent (build_puzzle one_blank)"
  "is_solution (build_puzzle one_blank) (build_puzzle example_solution)"
proof -
  show w: "wf_grid (build_puzzle one_blank)"
    using one_blank_chars by (simp add: build_puzzle_wf)
  show "givens_consistent (build_puzzle one_blank)"
    by (rule units_ok_consistent [OF w one_blank_units])
  show "is_solution (build_puzzle one_blank) (build_puzzle example_solution)"
    using example_solution_solution(4) one_blank_extends by (simp add: is_solution_def)
qed

lemma two_solutions_solutions:
  "wf_grid (build_puzzle two_solutions)" "givens_consistent (build_puzzle two_solutions)"
  "is_solution (build_puzzle two_solutions) (build_puzzle example_solution)"
  "is_solution (build_puzzle two_solutions) (build_puzzle other_solution)"
proof -
  show w: "wf_grid (build_puzzle two_solutions)"
    using two_solutions_chars(1) by (simp add: build_puzzle_wf)
  show "givens_consistent (build_puzzle two_solutions)"
    by (rule units_ok_consistent [OF w two_solutions_units(2)])
  show "is_solution (build_puzzle two_solutions) (build_puzzle example_solution)"
    using example_solution_solution(4) two_solutions_extends(1) by (simp add: is_solution_def)
  note d = digits_puzzle [OF two_solutions_chars(2) [THEN conjunct1] two_solutions_chars(2) [THEN conjunct2]]
  have "is_solution (build_puzzle other_solution) (build_puzzle other_solution)"
    by (rule consistent_complete_solution [OF d(3,2) units_ok_consistent [OF d(3) two_solutions_units(1)]])
  then show "is_solution (build_puzzle two_solutions) (build_puzzle other_solution)"
    using two_solutions_extends(2) by (simp add: is_solution_def)
qed

lemma solve_two_solutions_string: "solve (Some two_solutions) = Inr example_solution"
  using solve_valid_input [OF validate_puzzle] two_solutions_chars(1) two_solutions_search
    digits_puzzle(4) [OF example_solution_digits [THEN conjunct1] example_solution_digits [THEN conjunct2]]
  by simp

lemma solve_one_blank: "solve (Some one_blank) = Inr example_solution"
  using solve_valid_input [OF validate_puzzle] one_blank_chars one_blank_search
    digits_puzzle(4) [OF example_solution_digits [THEN conjunct1] example_solution_digits [THEN conjunct2]]
  by simp

lemma all_ones_clash: "\<not> (\<exists>g. is_solution (build_puzzle all_ones) g)"
proof
  assume "\<exists>g. is_solution (build_puzzle all_ones) g"
  then obtain g where g: "is_solution (build_puzzle all_ones) g" ..
  note d = digits_puzzle [OF all_ones_digits [THEN conjunct1] all_ones_digits [THEN conjunct2]]
  have "g = build_puzzle all_ones" by (rule complete_solution_eq [OF d(3) d(2) g])
  moreover have "no_clash g 0 0" using g by (simp add: is_solution_def)
  moreover have "peers 0 0 0 1" by (simp add: peers_def)
  ultimately show False
    by (auto simp: no_clash_def all_ones_def js_char_at_def)
qed

section \<open>The solve operation end to end\<close>

text \<open>C1: when \<^verbatim>\<open>solve\<close> returns a string for a puzzle of digits and dots
  whose givens do not clash, that string is the encoding of a solution of the
  puzzle.\<close>

theorem solve_correct:
  assumes "length s = 81" and "list_all puzzle_char s" and "givens_consistent (build_puzzle s)"
    and "solve (Some s) = Inr t"
  shows "\<exists>g. is_solution (build_puzzle s) g \<and> t = build_puzzle_string g"
proof -
  have wf: "wf_grid (build_puzzle s)" by (rule build_puzzle_wf [OF assms(1,2)])
  have "solve (Some s) = (case solve_loc (build_puzzle s) 0 0 of
       None \<Rightarrow> Inl Thrown
     | Some (False, _) \<Rightarrow> Inl (Rejected CannotBeSolved)
     | Some (True, g) \<Rightarrow> Inr (build_puzzle_string g))"
    by (rule solve_valid_input [OF validate_puzzle [OF assms(1,2)]])
  with assms(4) obtain g where g: "solve_loc (build_puzzle s) 0 0 = Some (True, g)"
    and t: "t = build_puzzle_string g"
    by (auto split: option.splits prod.splits bool.splits)
  show ?thesis using search_valid [OF wf assms(3) g] t by blast
qed

text \<open>C2: \<^verbatim>\<open>solve\<close> returns a string for every puzzle of digits and dots
  that has a solution.\<close>

theorem solve_solvable:
  assumes "length s = 81" and "list_all puzzle_char s" and "is_solution (build_puzzle s) q"
  shows "\<exists>t. solve (Some s) = Inr t"
proof -
  have wf: "wf_grid (build_puzzle s)" by (rule build_puzzle_wf [OF assms(1,2)])
  obtain g where "solve_loc (build_puzzle s) 0 0 = Some (True, g)"
    using search_complete [OF wf solution_parts [OF assms(3)]] by blast
  then show ?thesis
    using solve_valid_input [OF validate_puzzle [OF assms(1,2)]] by simp
qed

text \<open>C3: a puzzle of digits and dots with consistent givens and exactly one
  solution is answered with that solution.\<close>

theorem solve_unique_solution:
  assumes "length s = 81" and "list_all puzzle_char s" and "givens_consistent (build_puzzle s)"
    and "is_solution (build_puzzle s) q" and "\<forall>q'. is_solution (build_puzzle s) q' \<longrightarrow> q' = q"
  shows "solve (Some s) = Inr (build_puzzle_string q)"
proof -
  have wf: "wf_grid (build_puzzle s)" by (rule build_puzzle_wf [OF assms(1,2)])
  obtain g where g: "solve_loc (build_puzzle s) 0 0 = Some (True, g)"
    using search_complete [OF wf solution_parts [OF assms(4)]] by blast
  then have "g = q" using search_valid [OF wf assms(3)] assms(5) by blast
  then show ?thesis
    using g solve_valid_input [OF validate_puzzle [OF assms(1,2)]] by simp
qed

text \<open>C5: \<^verbatim>\<open>solve\<close> never throws: on any input it returns a string or
  one of its error messages.\<close>

theorem solve_never_throws: "solve ps \<noteq> Inl Thrown"
proof (cases "validate ps")
  case None
  have "solve_loc (build_puzzle (the ps)) 0 0 \<noteq> None" by (rule solve_total(1)) simp_all
  then show ?thesis using None
    by (auto simp: solve_def split: option.splits prod.splits bool.splits)
qed (simp add: solve_def)

text \<open>C24: \<^verbatim>\<open>solve\<close> returns every 81-character string of the digits
  \<open>1\<close>..\<open>9\<close> unchanged, as its own solution, whether or not its digits
  clash: \<^verbatim>\<open>solveLoc\<close> only checks the cells it fills.\<close>

theorem solve_full_string:
  assumes "length s = 81" and "list_all nz_digit s"
  shows "solve (Some s) = Inr s"
proof -
  note d = digits_puzzle [OF assms]
  have "solve_loc (build_puzzle s) 0 0 = Some (True, build_puzzle s)"
    using solve_filled_grid(1) [of 0 0 "build_puzzle s"] d(2) by (simp add: filled_from_start)
  then show ?thesis
    using solve_valid_input [OF validate_puzzle [OF assms(1) d(1)]] d(4) by simp
qed

text \<open>C4: when \<^verbatim>\<open>solve\<close> returns a string for a puzzle of digits and dots
  whose givens do not clash, the string encodes the solution that comes first in
  row-major lexicographic order among all solutions of the puzzle (spec, section
  4.4).\<close>

theorem solve_first_solution:
  assumes "length s = 81" and "list_all puzzle_char s" and "givens_consistent (build_puzzle s)"
    and "solve (Some s) = Inr t"
  shows "\<exists>g. t = build_puzzle_string g \<and> is_solution (build_puzzle s) g
             \<and> (\<forall>q. is_solution (build_puzzle s) q \<longrightarrow> lex_le g q)"
proof -
  have wf: "wf_grid (build_puzzle s)" by (rule build_puzzle_wf [OF assms(1,2)])
  have "solve (Some s) = (case solve_loc (build_puzzle s) 0 0 of
       None \<Rightarrow> Inl Thrown
     | Some (False, _) \<Rightarrow> Inl (Rejected CannotBeSolved)
     | Some (True, g) \<Rightarrow> Inr (build_puzzle_string g))"
    by (rule solve_valid_input [OF validate_puzzle [OF assms(1,2)]])
  with assms(4) obtain g where g: "solve_loc (build_puzzle s) 0 0 = Some (True, g)"
    and t: "t = build_puzzle_string g"
    by (auto split: option.splits prod.splits bool.splits)
  have "\<forall>q. is_solution (build_puzzle s) q \<longrightarrow> lex_le g q"
    using search_lex_first [OF wf g] solution_parts by blast
  then show ?thesis using search_valid [OF wf assms(3) g] t by blast
qed

section \<open>The conflict examples of the spec, evaluated\<close>

text \<open>Where the values 2, 3, 5 and 8 occur around cell A2 of the example
  puzzle: the spec's section 8 expects \<open>row\<close> for 8, \<open>row\<close> and \<open>region\<close> for
  5, all three groups for 2; 3 occurs nowhere.\<close>

lemma example_conflicts:
  "map (\<lambda>v. (in_row (build_puzzle example_puzzle) 0 v, in_col (build_puzzle example_puzzle) 1 v,
             in_region (build_puzzle example_puzzle) 0 1 v)) [2, 3, 5, 8]
   = [(True, True, True), (False, False, False), (True, False, True), (True, False, False)]"
  unfolding in_units_code example_puzzle_def by code_simp

lemma values_evaluated:
  "parse_value ''8'' = Inr (Num 8)" "parse_value ''5'' = Inr (Num 5)" "parse_value ''2'' = Inr (Num 2)"
  "parse_coord ''A1'' = Inr (0, Num (int 0))"
  by code_simp+

section \<open>Findings\<close>

text \<open>C25: the character class of \<^verbatim>\<open>validate\<close> lets a backslash through;
  \<^verbatim>\<open>buildPuzzle\<close> reads it as \<open>NaN\<close>, \<^verbatim>\<open>buildPuzzleString\<close> writes that
  cell as the three characters \<^verbatim>\<open>NaN\<close>, and every \<^verbatim>\<open>check\<close> then scans a
  shifted copy of the grid.  The solution with a backslash in its first cell is
  accepted and reported unsolvable, although the same string with a dot there is
  solved.\<close>

theorem backslash_breaks_solve:
  "validate (Some backslash_puzzle) = None
   \<and> solve (Some backslash_puzzle) = Inl (Rejected CannotBeSolved)
   \<and> one_blank = backslash_puzzle[0 := CHR ''.'']
   \<and> is_solution (build_puzzle one_blank) (build_puzzle example_solution)"
proof -
  have "validate (Some backslash_puzzle) = None"
    unfolding validate_None_iff backslash_puzzle_def example_solution_def
    by (simp add: regex_char_def is_digit_def)
  moreover have "one_blank = backslash_puzzle[0 := CHR ''.'']"
    by (simp add: one_blank_def backslash_puzzle_def)
  ultimately show ?thesis using backslash_solve one_blank_solution(3) by simp
qed

section \<open>Witnesses\<close>

lemma solve_correct_witness:
  "length one_blank = 81 \<and> list_all puzzle_char one_blank \<and> givens_consistent (build_puzzle one_blank)
   \<and> solve (Some one_blank) = Inr example_solution
   \<and> (\<exists>g. is_solution (build_puzzle one_blank) g \<and> example_solution = build_puzzle_string g)"
  using solve_correct [OF one_blank_chars [THEN conjunct1] one_blank_chars [THEN conjunct2]
      one_blank_solution(2) solve_one_blank]
    one_blank_chars one_blank_solution(2) solve_one_blank by simp

lemma solve_solvable_witness:
  "length one_blank = 81 \<and> list_all puzzle_char one_blank
   \<and> is_solution (build_puzzle one_blank) (build_puzzle example_solution)
   \<and> (\<exists>t. solve (Some one_blank) = Inr t)"
  using solve_solvable [OF one_blank_chars [THEN conjunct1] one_blank_chars [THEN conjunct2]
      one_blank_solution(3)]
    one_blank_chars one_blank_solution(3) by simp

lemma solve_unique_solution_witness:
  "solve (Some example_solution) = Inr example_solution"
proof -
  note d = digits_puzzle [OF example_solution_digits [THEN conjunct1] example_solution_digits [THEN conjunct2]]
  have u: "\<forall>q'. is_solution (build_puzzle example_solution) q' \<longrightarrow> q' = build_puzzle example_solution"
    using complete_solution_eq [OF d(3) d(2)] by blast
  show ?thesis
    using solve_unique_solution [OF example_solution_digits [THEN conjunct1] d(1)
        example_solution_solution(3,4) u] d(4) by simp
qed

lemma solve_full_string_witness:
  "length all_ones = 81 \<and> list_all nz_digit all_ones \<and> solve (Some all_ones) = Inr all_ones
   \<and> \<not> (\<exists>g. is_solution (build_puzzle all_ones) g)"
  using solve_full_string [OF all_ones_digits [THEN conjunct1] all_ones_digits [THEN conjunct2]]
    all_ones_digits all_ones_clash by simp

lemma solve_loc_sound_witness:
  "wf_grid (build_puzzle one_blank)
   \<and> solve_loc (build_puzzle one_blank) 0 0 = Some (True, build_puzzle example_solution)
   \<and> placed_ok (build_puzzle one_blank) (build_puzzle example_solution)"
  using solve_loc_sound [OF one_blank_solution(1) one_blank_search] one_blank_solution(1)
    one_blank_search by simp

lemma solve_loc_complete_witness:
  "wf_grid (build_puzzle one_blank) \<and> complete (build_puzzle example_solution)
   \<and> extends (build_puzzle one_blank) (build_puzzle example_solution)
   \<and> placed_ok (build_puzzle one_blank) (build_puzzle example_solution)
   \<and> (\<exists>g. solve_loc (build_puzzle one_blank) 0 0 = Some (True, g))"
proof -
  note q = solution_parts [OF one_blank_solution(3)]
  show ?thesis
    using solve_loc_complete [OF one_blank_solution(1) q] one_blank_solution(1) q by simp
qed

lemma solve_loc_valid_witness:
  "givens_consistent (build_puzzle one_blank)
   \<and> solve_loc (build_puzzle one_blank) 0 0 = Some (True, build_puzzle example_solution)
   \<and> is_solution (build_puzzle one_blank) (build_puzzle example_solution)"
  using solve_loc_valid [OF one_blank_solution(1,2) one_blank_search] one_blank_solution(2)
    one_blank_search by simp

lemma solve_loc_restores_witness:
  "wf_grid (build_puzzle blocked_puzzle)
   \<and> solve_loc (build_puzzle blocked_puzzle) 0 0 = Some (False, build_puzzle blocked_puzzle)"
proof -
  have w: "wf_grid (build_puzzle blocked_puzzle)" using blocked_chars by (simp add: build_puzzle_wf)
  from solve_loc_restores [OF w blocked_search] have "build_puzzle blocked_puzzle = build_puzzle blocked_puzzle" .
  then show ?thesis using w blocked_search by simp
qed

lemma solve_loc_unique_witness:
  "solve_loc (build_puzzle example_solution) 0 0 = Some (True, build_puzzle example_solution)"
proof -
  note d = digits_puzzle [OF example_solution_digits [THEN conjunct1] example_solution_digits [THEN conjunct2]]
  have "\<forall>q'. is_solution (build_puzzle example_solution) q' \<longrightarrow> q' = build_puzzle example_solution"
    using complete_solution_eq [OF d(3) d(2)] by blast
  then show ?thesis
    by (rule solve_loc_unique [OF d(3) example_solution_solution(3,4)])
qed

lemma solve_loc_complete_grid_witness:
  "complete (build_puzzle all_ones)
   \<and> solve_loc (build_puzzle all_ones) 0 0 = Some (True, build_puzzle all_ones)"
proof -
  note d = digits_puzzle [OF all_ones_digits [THEN conjunct1] all_ones_digits [THEN conjunct2]]
  show ?thesis using solve_loc_complete_grid [OF d(2)] d(2) by simp
qed

lemma check_refines_witness:
  "wf_grid (build_puzzle example_puzzle)
   \<and> (check (build_puzzle example_puzzle) 0 1 3 \<longleftrightarrow> placement_ok (build_puzzle example_puzzle) 0 1 3)"
proof -
  have w: "wf_grid (build_puzzle example_puzzle)" using example_puzzle_chars by (simp add: build_puzzle_wf)
  show ?thesis using check_refines [OF w, of 0 1 3] w by simp
qed

lemma check_str_result_witness:
  "check_str (Some example_puzzle) (Some ''A2'') (Some ''3'') = Inr Valid
   \<and> check_str (Some example_puzzle) (Some ''A2'') (Some ''8'') = Inr (Conflicts [''row''])
   \<and> check_str (Some example_puzzle) (Some ''A2'') (Some ''5'') = Inr (Conflicts [''row'', ''region''])
   \<and> check_str (Some example_puzzle) (Some ''A2'') (Some ''2'') = Inr (Conflicts [''row'', ''column'', ''region''])"
proof -
  note r = check_str_result [OF example_puzzle_chars [THEN conjunct1] example_puzzle_chars [THEN conjunct2]
      coords_evaluated(1)]
  have c: "build_puzzle example_puzzle ! 0 ! 1 = Num 0"
    by (simp add: example_puzzle_def js_char_at_def)
  show ?thesis
    using r [OF coords_evaluated(4)] r [OF values_evaluated(1)] r [OF values_evaluated(2)]
      r [OF values_evaluated(3)] example_conflicts c by simp
qed

lemma decode_encode_witness:
  "wf_grid (build_puzzle example_puzzle)
   \<and> build_puzzle (build_puzzle_string (build_puzzle example_puzzle)) = build_puzzle example_puzzle"
proof -
  have w: "wf_grid (build_puzzle example_puzzle)" using example_puzzle_chars by (simp add: build_puzzle_wf)
  show ?thesis using decode_encode [OF w] w by simp
qed

lemma encode_decode_witness:
  "length example_puzzle = 81 \<and> list_all puzzle_char example_puzzle
   \<and> build_puzzle_string (build_puzzle example_puzzle) = example_puzzle"
proof -
  have "map (\<lambda>c. if c = CHR ''0'' then CHR ''.'' else c) example_puzzle = example_puzzle"
    by (simp add: example_puzzle_def)
  then show ?thesis
    using encode_decode [OF example_puzzle_chars [THEN conjunct1] example_puzzle_chars [THEN conjunct2]]
      example_puzzle_chars by simp
qed

lemma parse_coord_bounds_witness:
  "parse_coord ''I9'' = Inr (8, Num 8) \<and> (8::nat) < 9"
  using parse_coord_bounds [OF coords_evaluated(3)] coords_evaluated(3) by simp

lemma parse_coord_rejects_witness:
  "parse_coord ''J1'' = Inl InvalidCoordinate \<and> parse_coord ''A0'' = Inl InvalidCoordinate
   \<and> parse_coord ''Ax'' = Inl InvalidCoordinate"
proof -
  have "to_lower (CHR ''J'') \<notin> set ''abcdefghi''" "is_nan_char (CHR ''x'')" by code_simp+
  then show ?thesis
    using parse_coord_rejects [of "''J1''"] parse_coord_rejects [of "''A0''"]
      parse_coord_rejects [of "''Ax''"] by simp
qed

lemma parse_value_cases_witness:
  "parse_value ''3'' = Inr (Num 3) \<and> (\<exists>k. Num 3 = Num k \<and> 1 \<le> k \<and> k \<le> 9)"
  using parse_value_cases [OF coords_evaluated(4)] coords_evaluated(4) by simp

lemma check_str_nan_value_witness:
  "check_str (Some example_puzzle) (Some ''A2'') (Some '' '') = Inr Valid"
  using check_str_nan_value [OF validate_puzzle coords_evaluated(1) coords_evaluated(6)]
    example_puzzle_chars by simp

lemma check_str_nan_column_witness:
  "parse_coord ''A '' = Inr (0, NaN)
   \<and> check_str (Some example_puzzle) (Some ''A '') (Some ''1'') = Inr (Conflicts [''row''])"
proof -
  have "in_row (build_puzzle example_puzzle) 0 1"
    unfolding in_units_code example_puzzle_def by code_simp
  then show ?thesis
    using check_str_nan_column [OF example_puzzle_chars [THEN conjunct1] example_puzzle_chars [THEN conjunct2]
        coords_evaluated(2) coords_evaluated(5)] coords_evaluated(2) by simp
qed

lemma check_str_self_witness:
  "build_puzzle example_puzzle ! 0 ! 0 = Num 1
   \<and> check_str (Some example_puzzle) (Some ''A1'') (Some ''1'') = Inr Valid"
proof -
  have c: "build_puzzle example_puzzle ! 0 ! 0 = Num 1"
    by (simp add: example_puzzle_def js_char_at_def parse_int_char_def is_digit_def digit_val_def)
  show ?thesis
    using check_str_self [OF validate_puzzle values_evaluated(4) coords_evaluated(5)] c
      example_puzzle_chars by simp
qed

lemma solve_loc_preserves_wf_witness:
  "wf_grid (build_puzzle blocked_puzzle)
   \<and> solve_loc (build_puzzle blocked_puzzle) 0 0 = Some (False, build_puzzle blocked_puzzle)"
proof -
  have w: "wf_grid (build_puzzle blocked_puzzle)" using blocked_chars by (simp add: build_puzzle_wf)
  have "wf_grid (build_puzzle blocked_puzzle)"
    by (rule solve_loc_preserves_wf [OF w blocked_search])
  then show ?thesis using blocked_search by simp
qed

lemma solve_loc_lex_first_witness:
  "solve_loc (build_puzzle two_solutions) 0 0 = Some (True, build_puzzle example_solution)
   \<and> lex_le (build_puzzle example_solution) (build_puzzle other_solution)"
proof -
  note q = solution_parts [OF two_solutions_solutions(4)]
  show ?thesis
    using solve_loc_lex_first [OF two_solutions_solutions(1) two_solutions_search q]
      two_solutions_search by simp
qed

lemma solve_first_solution_witness:
  "givens_consistent (build_puzzle two_solutions) \<and> solve (Some two_solutions) = Inr example_solution
   \<and> (\<exists>g. example_solution = build_puzzle_string g \<and> is_solution (build_puzzle two_solutions) g
          \<and> (\<forall>q. is_solution (build_puzzle two_solutions) q \<longrightarrow> lex_le g q))"
  using solve_first_solution [OF two_solutions_chars(1) [THEN conjunct1] two_solutions_chars(1) [THEN conjunct2]
      two_solutions_solutions(2) solve_two_solutions_string]
    two_solutions_solutions(2) solve_two_solutions_string by simp

end
